theory Spec2Isabelle
  imports Complex_Main "HOL-Library.Sublist"
begin

section \<open>Time and calendar helper (src/utils.js)\<close>

text \<open>
  The two calendar checks read the process clock and convert it to the fixed zone
  Asia/Makassar. A reading of that clock is modelled by the values the JavaScript runtime
  hands to the code: the date string of \<^verbatim>\<open>toLocaleDateString('en-CA')\<close>
  (form YYYY-MM-DD), the result of \<^verbatim>\<open>getDay()\<close> (0 is Sunday, 6 is Saturday),
  the hour and minute of the day, and the time string of the id-ID locale.
\<close>

record wita_clock =
  date_en_CA :: string
  week_day :: nat
  hours :: nat
  minutes :: nat
  time_id_ID :: string

definition HOLIDAYS :: "string list" where
  "HOLIDAYS =
    [ ''2025-01-01'', ''2025-01-29'', ''2025-01-30'', ''2025-03-29'', ''2025-03-30'',
      ''2025-03-31'', ''2025-04-01'', ''2025-04-18'', ''2025-05-01'', ''2025-05-12'',
      ''2025-05-29'', ''2025-06-01'', ''2025-06-06'', ''2025-06-27'', ''2025-08-17'',
      ''2025-09-05'', ''2025-12-25'',
      ''2026-01-01'', ''2026-01-18'', ''2026-02-17'', ''2026-03-20'', ''2026-03-21'',
      ''2026-04-03'', ''2026-05-01'', ''2026-05-14'', ''2026-05-27'', ''2026-06-01'',
      ''2026-06-17'', ''2026-08-17'', ''2026-08-26'', ''2026-12-25'' ]"

definition isHoliday :: "wita_clock \<Rightarrow> bool" where
  "isHoliday now = (date_en_CA now \<in> set HOLIDAYS)"

definition isWeekend :: "wita_clock \<Rightarrow> bool" where
  "isWeekend now = (let day = week_day now in day = 0 \<or> day = 6)"

text \<open>
  The source has no function of the name \<open>isWorkingDay\<close>; the working-day test is the
  pair of guards at the head of \<^verbatim>\<open>runCheckin\<close> in src/index.js, which lets a run
  go on exactly when neither check fires.
\<close>

definition isWorkingDay :: "wita_clock \<Rightarrow> bool" where
  "isWorkingDay now = (\<not> isWeekend now \<and> \<not> isHoliday now)"


section \<open>Dashboard store (src/server.js)\<close>

text \<open>
  The dashboard keeps three JSON files. A parsed JSON value is a \<open>jval\<close>; an object
  read from a file or from a request body is a map from field names to values, where an
  absent field (JavaScript \<^verbatim>\<open>undefined\<close>) is \<open>None\<close>. The object spread
  \<^verbatim>\<open>{...a, ...b}\<close> is \<open>a ++ b\<close>.
\<close>

datatype jval =
    JNull
  | JBool bool
  | JNum real
  | JStr string
  | JArr "jval list"
  | JObj "(string \<times> jval) list"

type_synonym jobject = "string \<rightharpoonup> jval"

text \<open>
  A file on disk: missing, present with content on which the \<^verbatim>\<open>try\<close> block of its
  loader throws (\<^verbatim>\<open>JSON.parse\<close> fails), or present with the parsed content.
\<close>

datatype 'a json_file = Absent | Corrupt | Stored 'a

text \<open>The reply \<^verbatim>\<open>res.json({ success, message })\<close> of a handler.\<close>

record reply =
  reply_success :: bool
  reply_message :: string

text \<open>
  Strict equality \<^verbatim>\<open>===\<close> of two field reads. Primitives compare by content;
  two arrays or objects that come from two different parses are never the same reference.
\<close>

fun strict_eq :: "jval option \<Rightarrow> jval option \<Rightarrow> bool" where
  "strict_eq None None = True"
| "strict_eq (Some JNull) (Some JNull) = True"
| "strict_eq (Some (JBool a)) (Some (JBool b)) = (a = b)"
| "strict_eq (Some (JNum a)) (Some (JNum b)) = (a = b)"
| "strict_eq (Some (JStr a)) (Some (JStr b)) = (a = b)"
| "strict_eq _ _ = False"

text \<open>Every field read except an array or an object is a primitive.\<close>

fun primitive :: "jval option \<Rightarrow> bool" where
  "primitive (Some (JArr _)) = False"
| "primitive (Some (JObj _)) = False"
| "primitive _ = True"

text \<open>Truthiness of a field read, as \<^verbatim>\<open>!x\<close> and \<^verbatim>\<open>if (x)\<close> see it.\<close>

fun truthy :: "jval option \<Rightarrow> bool" where
  "truthy None = False"
| "truthy (Some JNull) = False"
| "truthy (Some (JBool b)) = b"
| "truthy (Some (JNum x)) = (x \<noteq> 0)"
| "truthy (Some (JStr s)) = (s \<noteq> [])"
| "truthy (Some (JArr _)) = True"
| "truthy (Some (JObj _)) = True"


text \<open>\<^verbatim>\<open>xs.findIndex(p)\<close>: the first index whose element satisfies \<open>p\<close>, or \<open>-1\<close>.\<close>

fun findIndex :: "('a \<Rightarrow> bool) \<Rightarrow> 'a list \<Rightarrow> int" where
  "findIndex p [] = -1"
| "findIndex p (x # xs) =
     (if p x then 0 else (let i = findIndex p xs in if i < 0 then -1 else i + 1))"

subsection \<open>Configuration\<close>

definition DEFAULT_CONFIG :: jobject where
  "DEFAULT_CONFIG = map_of
    [ (''kodeKantor'', JStr ''004036057000000''),
      (''status'', JStr ''2''),
      (''shift'', JStr ''1''),
      (''latitude'', JNum 0.537831),
      (''longitude'', JNum 123.058388),
      (''locationName'', JStr ''KSOP Gorontalo''),
      (''timezone'', JStr ''Asia/Makassar''),
      (''fonnteAccountToken'', JStr []),
      (''fonnteToken'', JStr []),
      (''fonnteDeviceNumber'', JStr []),
      (''fonnteDeviceName'', JStr []),
      (''schedules'', JArr
        [ JObj [(''name'', JStr ''Pagi''), (''startHour'', JNum 7), (''startMinute'', JNum 0),
                (''endHour'', JNum 8), (''endMinute'', JNum 0), (''enabled'', JBool True)],
          JObj [(''name'', JStr ''Siang''), (''startHour'', JNum 12), (''startMinute'', JNum 5),
                (''endHour'', JNum 13), (''endMinute'', JNum 0), (''enabled'', JBool True)],
          JObj [(''name'', JStr ''Sore''), (''startHour'', JNum 17), (''startMinute'', JNum 0),
                (''endHour'', JNum 18), (''endMinute'', JNum 0), (''enabled'', JBool True)] ]) ]"

definition loadConfig :: "jobject json_file \<Rightarrow> jobject" where
  "loadConfig f = (case f of Stored c \<Rightarrow> DEFAULT_CONFIG ++ c | _ \<Rightarrow> DEFAULT_CONFIG)"

definition saveConfigFile :: "jobject \<Rightarrow> jobject json_file" where
  "saveConfigFile config = Stored config"

text \<open>\<^verbatim>\<open>app.post('/api/config')\<close>: the new state of the file and the reply.\<close>

definition post_config :: "jobject json_file \<Rightarrow> jobject \<Rightarrow> jobject json_file \<times> reply" where
  "post_config f body =
     (let config = loadConfig f ++ body
      in (saveConfigFile config, \<lparr>reply_success = True, reply_message = ''Config saved''\<rparr>))"

subsection \<open>Roster\<close>

definition loadUsers :: "jobject list json_file \<Rightarrow> jobject list" where
  "loadUsers f = (case f of Stored us \<Rightarrow> us | _ \<Rightarrow> [])"

definition saveUsers :: "jobject list \<Rightarrow> jobject list json_file" where
  "saveUsers users = Stored users"

text \<open>The field read \<^verbatim>\<open>u.nip\<close>, and the test \<^verbatim>\<open>u.nip === req.body.nip\<close>.\<close>

definition nip_of :: "jobject \<Rightarrow> jval option" where
  "nip_of u = u ''nip''"

definition same_nip :: "jobject \<Rightarrow> jobject \<Rightarrow> bool" where
  "same_nip body u = strict_eq (nip_of u) (nip_of body)"

text \<open>
  \<^verbatim>\<open>app.post('/api/users')\<close>; \<open>now\<close> is the text of
  \<^verbatim>\<open>new Date().toISOString()\<close>.
\<close>

definition post_users ::
  "jobject list json_file \<Rightarrow> jobject \<Rightarrow> string \<Rightarrow> jobject list json_file \<times> reply" where
  "post_users f body now =
     (let users = loadUsers f;
          index = findIndex (same_nip body) users;
          users' =
            (if index \<ge> 0 then users[nat index := (users ! nat index) ++ body]
             else users @ [body ++ [''enabled'' \<mapsto> JBool True, ''createdAt'' \<mapsto> JStr now]])
      in (saveUsers users', \<lparr>reply_success = True, reply_message = ''User saved''\<rparr>))"

text \<open>\<^verbatim>\<open>app.delete('/api/users')\<close>\<close>

definition delete_users :: "jobject list json_file \<Rightarrow> jobject \<Rightarrow> jobject list json_file \<times> reply" where
  "delete_users f body =
     (let users = filter (\<lambda>u. \<not> same_nip body u) (loadUsers f)
      in (saveUsers users, \<lparr>reply_success = True, reply_message = ''User deleted''\<rparr>))"

text \<open>
  \<^verbatim>\<open>app.post('/api/users/toggle')\<close>: \<^verbatim>\<open>find\<close> returns the first user
  with the submitted nip; its flag is negated in place and the roster is written back. With
  no such user nothing is written.
\<close>

fun toggle_first :: "jobject \<Rightarrow> jobject list \<Rightarrow> jobject list option" where
  "toggle_first body [] = None"
| "toggle_first body (u # us) =
     (if same_nip body u then Some (u(''enabled'' \<mapsto> JBool (\<not> truthy (u ''enabled''))) # us)
      else map_option ((#) u) (toggle_first body us))"

definition toggle_users :: "jobject list json_file \<Rightarrow> jobject \<Rightarrow> jobject list json_file \<times> reply" where
  "toggle_users f body =
     (case toggle_first body (loadUsers f) of
        Some users \<Rightarrow> (saveUsers users, \<lparr>reply_success = True, reply_message = ''User toggled''\<rparr>)
      | None \<Rightarrow> (f, \<lparr>reply_success = True, reply_message = ''User toggled''\<rparr>))"

subsection \<open>Rolling log\<close>







section \<open>Check-in module (src/unnamed/part_000, imported as checkin.js)\<close>

subsection \<open>Strings\<close>

text \<open>\<^verbatim>\<open>s.includes(p)\<close>: \<open>p\<close> occurs in \<open>s\<close> as a contiguous run of characters.\<close>

fun starts_with :: "string \<Rightarrow> string \<Rightarrow> bool" where
  "starts_with s [] = True"
| "starts_with [] (c # p) = False"
| "starts_with (d # s) (c # p) = (d = c \<and> starts_with s p)"

fun str_includes :: "string \<Rightarrow> string \<Rightarrow> bool" where
  "str_includes [] p = (p = [])"
| "str_includes (c # s) p = (starts_with (c # s) p \<or> str_includes s p)"

definition is_digit :: "char \<Rightarrow> bool" where
  "is_digit c = (c \<in> set ''0123456789'')"

text \<open>White space of the ASCII range: space, tab, line feed, vertical tab, form feed, return.\<close>

definition is_space :: "char \<Rightarrow> bool" where
  "is_space c = (c \<in> set [CHR 0x20, CHR 0x09, CHR 0x0A, CHR 0x0B, CHR 0x0C, CHR 0x0D])"

definition trim :: "string \<Rightarrow> string" where
  "trim s = rev (dropWhile is_space (rev (dropWhile is_space s)))"

subsection \<open>Navigation with retry\<close>

text \<open>
  What a browser session does that can be seen from outside: a call of
  \<^verbatim>\<open>page.goto\<close>, the warning that a retry follows (with the count that is left), a
  pause in milliseconds, a screenshot with its file name prefix, and the closing of the
  browser.
\<close>

datatype browser_event =
    Goto
  | RetryWarning nat
  | Pause nat
  | Screenshot string
  | CloseBrowser

text \<open>
  The loop \<^verbatim>\<open>while (retries > 0)\<close> around \<^verbatim>\<open>page.goto\<close>. The argument
  \<open>goto\<close> gives the outcome of the k-th call (counted from 0): \<open>None\<close> when the page
  loaded, the message of the navigation error otherwise. The loop is left by
  \<^verbatim>\<open>break\<close> on success, by \<^verbatim>\<open>throw navError\<close> when the decremented
  counter reaches 0, and goes round again after a pause of 5000 ms otherwise.
\<close>

fun nav_loop ::
  "(nat \<Rightarrow> string option) \<Rightarrow> nat \<Rightarrow> nat \<Rightarrow> browser_event list
     \<Rightarrow> (string + unit) \<times> browser_event list" where
  "nav_loop goto 0 k tr = (Inr (), tr)"
| "nav_loop goto (Suc retries) k tr =
     (case goto k of
        None \<Rightarrow> (Inr (), tr @ [Goto])
      | Some navError \<Rightarrow>
          if retries = 0 then (Inl navError, tr @ [Goto])
          else nav_loop goto retries (Suc k) (tr @ [Goto, RetryWarning retries, Pause 5000]))"

definition navigate :: "(nat \<Rightarrow> string option) \<Rightarrow> (string + unit) \<times> browser_event list" where
  "navigate goto = nav_loop goto 3 0 []"

subsection \<open>Check-in time from the results table\<close>

text \<open>
  The part of the document that the callback of \<^verbatim>\<open>page.evaluate\<close> looks at: the
  table under \<^verbatim>\<open>#absensi\<close> and the first \<^verbatim>\<open>table.table-bordered\<close>, each (when
  present) as the rows of its body, a row as the texts of its cells.
\<close>

record results_dom =
  absensi_table :: "string list list option"
  bordered_table :: "string list list option"

definition sessionColumn :: "nat \<Rightarrow> nat" where
  "sessionColumn hour = (if hour \<ge> 12 \<and> hour < 16 then 2 else if hour \<ge> 16 then 3 else 1)"

text \<open>
  The regular expression \<^verbatim>\<open>/(\d{1,2}:\d{2}:\d{2})/\<close>: the leftmost match; at a
  position two leading digits are tried before one.
\<close>

fun eat_digit :: "string \<Rightarrow> string option" where
  "eat_digit [] = None"
| "eat_digit (c # s) = (if is_digit c then Some s else None)"

fun minutes_seconds :: "string \<Rightarrow> bool" where
  "minutes_seconds (c1 # m1 # m2 # c2 # s1 # s2 # _) =
     (c1 = CHR '':'' \<and> is_digit m1 \<and> is_digit m2 \<and> c2 = CHR '':'' \<and> is_digit s1 \<and> is_digit s2)"
| "minutes_seconds _ = False"

definition match_here :: "string \<Rightarrow> string option" where
  "match_here s =
     (case eat_digit s of
        None \<Rightarrow> None
      | Some s1 \<Rightarrow>
          (case eat_digit s1 of
             Some s2 \<Rightarrow>
               if minutes_seconds s2 then Some (take 8 s)
               else if minutes_seconds s1 then Some (take 7 s)
               else None
           | None \<Rightarrow> if minutes_seconds s1 then Some (take 7 s) else None))"

fun time_match :: "string \<Rightarrow> string option" where
  "time_match [] = match_here []"
| "time_match (c # s) =
     (case match_here (c # s) of Some t \<Rightarrow> Some t | None \<Rightarrow> time_match s)"

text \<open>
  The texts that the expression matches in full: one or two digits, a colon, two digits, a
  colon, two digits.
\<close>

fun clock_pattern :: "string \<Rightarrow> bool" where
  "clock_pattern [h1, h2, c1, m1, m2, c2, s1, s2] =
     (is_digit h1 \<and> is_digit h2 \<and> c1 = CHR '':'' \<and> is_digit m1 \<and> is_digit m2 \<and>
      c2 = CHR '':'' \<and> is_digit s1 \<and> is_digit s2)"
| "clock_pattern [h1, c1, m1, m2, c2, s1, s2] =
     (is_digit h1 \<and> c1 = CHR '':'' \<and> is_digit m1 \<and> is_digit m2 \<and>
      c2 = CHR '':'' \<and> is_digit s1 \<and> is_digit s2)"
| "clock_pattern _ = False"

text \<open>
  The callback run in the page, with the column index as its argument. The table is
  \<^verbatim>\<open>querySelector('#absensi table') || querySelector('table.table-bordered')\<close>.
\<close>

definition results_table :: "results_dom \<Rightarrow> string list list option" where
  "results_table doc = (case absensi_table doc of Some t \<Rightarrow> Some t | None \<Rightarrow> bordered_table doc)"

definition table_cell_time :: "results_dom \<Rightarrow> nat \<Rightarrow> string option" where
  "table_cell_time doc colIndex =
     (case results_table doc of
        None \<Rightarrow> None
      | Some rows \<Rightarrow>
          (case rows of
             [] \<Rightarrow> None
           | firstRow # _ \<Rightarrow>
               if length firstRow \<le> colIndex then None
               else time_match (trim (firstRow ! colIndex))))"

text \<open>
  The \<^verbatim>\<open>try\<close> block around the extraction. \<open>evaluated\<close> is \<open>Inl\<close> when
  \<^verbatim>\<open>page.evaluate\<close> throws and \<open>Inr\<close> with the document otherwise; only the throw
  reaches the \<^verbatim>\<open>catch\<close>, which takes the time of the clock in the id-ID form and
  replaces every dot by a colon.
\<close>

definition read_checkin_time :: "string + results_dom \<Rightarrow> wita_clock \<Rightarrow> string option" where
  "read_checkin_time evaluated now =
     (case evaluated of
        Inr doc \<Rightarrow> table_cell_time doc (sessionColumn (hours now))
      | Inl e \<Rightarrow> Some (map (\<lambda>c. if c = CHR ''.'' then CHR '':'' else c) (time_id_ID now)))"

subsection \<open>Classification of the page after the submit\<close>

record checkin_result =
  success :: bool
  message :: string
  checkinTime :: "string option"

text \<open>
  The chain of tests at the end of the \<^verbatim>\<open>try\<close> block of \<open>performCheckin\<close>, on the
  content, the address and the title of the page and the extracted time. The second
  component lists the screenshots taken. A time that is \<^verbatim>\<open>null\<close> or empty is falsy.
\<close>

definition classify_page ::
  "string \<Rightarrow> string \<Rightarrow> string \<Rightarrow> string option \<Rightarrow> checkin_result \<times> string list" where
  "classify_page pageContent pageUrl pageTitle ct =
     (if str_includes pageContent ''Berhasil'' \<or> str_includes pageContent ''berhasil'' \<or>
         str_includes pageContent ''Sukses'' \<or> str_includes pageContent ''sukses'' \<or>
         str_includes pageContent ''Selamat'' \<or> str_includes pageContent ''tercatat'' \<or>
         str_includes pageContent ''Data Absensi'' \<or> str_includes pageContent ''Check Out'' \<or>
         str_includes pageContent ''MITRA'' \<or> str_includes pageUrl ''/home'' \<or>
         str_includes pageUrl ''/dashboard''
      then (\<lparr>success = True,
             message = (case ct of
                          None \<Rightarrow> ''Check-in berhasil!''
                        | Some t \<Rightarrow> if t = [] then ''Check-in berhasil!''
                                    else ''Check-in berhasil! ('' @ t @ '')''),
             checkinTime = ct\<rparr>, [])
      else if str_includes pageContent ''sudah absen'' \<or> str_includes pageContent ''Sudah Absen'' \<or>
         str_includes pageContent ''sudah tercatat'' \<or> str_includes pageContent ''sudah melakukan''
      then (\<lparr>success = True,
             message = (case ct of
                          None \<Rightarrow> ''Sudah check-in sebelumnya''
                        | Some t \<Rightarrow> if t = [] then ''Sudah check-in sebelumnya''
                                    else ''Sudah check-in ('' @ t @ '')''),
             checkinTime = ct\<rparr>, [])
      else if str_includes pageContent ''salah'' \<or> str_includes pageContent ''Salah'' \<or>
         str_includes pageContent ''invalid'' \<or> str_includes pageContent ''Invalid''
      then (\<lparr>success = False, message = ''NIP atau Password salah'', checkinTime = None\<rparr>, [])
      else if str_includes pageContent ''belum waktunya'' \<or> str_includes pageContent ''tidak dalam jam''
      then (\<lparr>success = False, message = ''Belum waktunya check-in'', checkinTime = None\<rparr>, [])
      else if str_includes pageContent ''lokasi'' \<and> str_includes pageContent ''tidak''
      then (\<lparr>success = False, message = ''Masalah lokasi/koordinat'', checkinTime = None\<rparr>, [])
      else (\<lparr>success = False, message = ''Response tidak dikenali: '' @ pageTitle,
             checkinTime = None\<rparr>, [''unknown_result'']))"

text \<open>
  The same classifier as an ordered list of keyword groups: the first group that matches
  decides, and no match gives the unrecognized outcome. \<open>group_matches\<close> has the groups
  as the code tests them: the success group holds, besides its markers for the content, two
  markers that are looked for in the address of the page. \<open>text_group_matches\<close> has the
  groups as the specification words them, over the text of the page alone.
\<close>

datatype keyword_group =
    SuccessMarkers
  | AlreadySubmitted
  | InvalidCredential
  | TooEarly
  | LocationProblem

definition priority_order :: "keyword_group list" where
  "priority_order = [SuccessMarkers, AlreadySubmitted, InvalidCredential, TooEarly, LocationProblem]"

fun group_matches :: "keyword_group \<Rightarrow> string \<Rightarrow> string \<Rightarrow> bool" where
  "group_matches SuccessMarkers content url =
     (list_ex (str_includes content)
        [''Berhasil'', ''berhasil'', ''Sukses'', ''sukses'', ''Selamat'', ''tercatat'',
         ''Data Absensi'', ''Check Out'', ''MITRA''] \<or>
      list_ex (str_includes url) [''/home'', ''/dashboard''])"
| "group_matches AlreadySubmitted content url =
     list_ex (str_includes content)
        [''sudah absen'', ''Sudah Absen'', ''sudah tercatat'', ''sudah melakukan'']"
| "group_matches InvalidCredential content url =
     list_ex (str_includes content) [''salah'', ''Salah'', ''invalid'', ''Invalid'']"
| "group_matches TooEarly content url =
     list_ex (str_includes content) [''belum waktunya'', ''tidak dalam jam'']"
| "group_matches LocationProblem content url =
     list_all (str_includes content) [''lokasi'', ''tidak'']"

fun text_group_matches :: "keyword_group \<Rightarrow> string \<Rightarrow> bool" where
  "text_group_matches SuccessMarkers content =
     list_ex (str_includes content)
        [''Berhasil'', ''berhasil'', ''Sukses'', ''sukses'', ''Selamat'', ''tercatat'',
         ''Data Absensi'', ''Check Out'', ''MITRA'']"
| "text_group_matches AlreadySubmitted content =
     list_ex (str_includes content)
        [''sudah absen'', ''Sudah Absen'', ''sudah tercatat'', ''sudah melakukan'']"
| "text_group_matches InvalidCredential content =
     list_ex (str_includes content) [''salah'', ''Salah'', ''invalid'', ''Invalid'']"
| "text_group_matches TooEarly content =
     list_ex (str_includes content) [''belum waktunya'', ''tidak dalam jam'']"
| "text_group_matches LocationProblem content =
     list_all (str_includes content) [''lokasi'', ''tidak'']"

definition with_time :: "string \<Rightarrow> string \<Rightarrow> string option \<Rightarrow> string" where
  "with_time plain stem ct =
     (case ct of None \<Rightarrow> plain | Some t \<Rightarrow> if t = [] then plain else stem @ '' ('' @ t @ '')'')"

fun group_outcome :: "keyword_group \<Rightarrow> string option \<Rightarrow> checkin_result" where
  "group_outcome SuccessMarkers ct =
     \<lparr>success = True, message = with_time ''Check-in berhasil!'' ''Check-in berhasil!'' ct,
      checkinTime = ct\<rparr>"
| "group_outcome AlreadySubmitted ct =
     \<lparr>success = True, message = with_time ''Sudah check-in sebelumnya'' ''Sudah check-in'' ct,
      checkinTime = ct\<rparr>"
| "group_outcome InvalidCredential ct =
     \<lparr>success = False, message = ''NIP atau Password salah'', checkinTime = None\<rparr>"
| "group_outcome TooEarly ct =
     \<lparr>success = False, message = ''Belum waktunya check-in'', checkinTime = None\<rparr>"
| "group_outcome LocationProblem ct =
     \<lparr>success = False, message = ''Masalah lokasi/koordinat'', checkinTime = None\<rparr>"

definition unrecognized :: "string \<Rightarrow> checkin_result" where
  "unrecognized pageTitle =
     \<lparr>success = False, message = ''Response tidak dikenali: '' @ pageTitle, checkinTime = None\<rparr>"

definition first_match_outcome ::
  "string \<Rightarrow> string \<Rightarrow> string \<Rightarrow> string option \<Rightarrow> checkin_result" where
  "first_match_outcome content url title ct =
     (case find (\<lambda>g. group_matches g content url) priority_order of
        Some g \<Rightarrow> group_outcome g ct
      | None \<Rightarrow> unrecognized title)"

definition text_first_match_outcome :: "string \<Rightarrow> string \<Rightarrow> string option \<Rightarrow> checkin_result" where
  "text_first_match_outcome content title ct =
     (case find (\<lambda>g. text_group_matches g content) priority_order of
        Some g \<Rightarrow> group_outcome g ct
      | None \<Rightarrow> unrecognized title)"

subsection \<open>One check-in attempt\<close>

text \<open>
  What one browser session meets, from the navigation step on (the browser and the page
  are open): the outcome of each call of \<^verbatim>\<open>page.goto\<close>, whether the login form
  shows up within the time limit, an error thrown by one of the steps between the form and
  the reading of the result (typing, selecting, the submit click), and the page after the
  submit. An error is modelled by its message.
\<close>

record browser_env =
  goto_result :: "nat \<Rightarrow> string option"
  form_found :: bool
  interaction_error :: "string option"
  page_content :: string
  page_title :: string
  page_url :: string
  table_eval :: "string + results_dom"

text \<open>
  \<open>performCheckin\<close>: \<open>Inl\<close> is the error thrown to the caller. The outer
  \<^verbatim>\<open>catch\<close> takes the screenshot \<open>error\<close> and throws the error again, and
  \<^verbatim>\<open>finally\<close> closes the browser.
\<close>

definition performCheckin ::
  "browser_env \<Rightarrow> wita_clock \<Rightarrow> (string + checkin_result) \<times> browser_event list" where
  "performCheckin env now =
     (case navigate (goto_result env) of
        (Inl navError, tr) \<Rightarrow> (Inl navError, tr @ [Screenshot ''error'', CloseBrowser])
      | (Inr _, tr) \<Rightarrow>
          (let tr1 = tr @ [Screenshot ''page_loaded'', Screenshot ''after_geolocation'']
           in if \<not> form_found env
              then (Inl (''Form login tidak ditemukan. URL: '' @ page_url env),
                    tr1 @ [Screenshot ''form_not_found'', Screenshot ''error'', CloseBrowser])
              else (case interaction_error env of
                      Some e \<Rightarrow> (Inl e, tr1 @ [Screenshot ''error'', CloseBrowser])
                    | None \<Rightarrow>
                        (let ct = read_checkin_time (table_eval env) now;
                             (result, shots) =
                               classify_page (page_content env) (page_url env) (page_title env) ct
                         in (Inr result, tr1 @ map Screenshot shots @ [CloseBrowser])))))"

subsection \<open>WhatsApp notification\<close>

text \<open>
  The text handed over as \<open>message\<close>: a plain text (the outcome message, as the
  scheduler passes it), or the notice that the dashboard composes from the outcome, the
  name of the user (or a fixed form of address), its log message and the location name.
\<close>

datatype notice =
    Plain string
  | DashboardNotice bool "jval option" string "jval option"

text \<open>
  The rendered template, by its variable parts: the outcome (which picks the pictograph,
  \<open>BERHASIL\<close> or \<open>GAGAL\<close> and the closing line), the name, the schedule name, the time
  string, the location name, the mode label and, for a failure, the message.
\<close>

record wa_message =
  wa_success :: bool
  wa_nama :: "jval option"
  wa_jadwal :: string
  wa_waktu :: string
  wa_lokasi :: "jval option"
  wa_mode :: string
  wa_closing :: "notice option"

datatype log_level = LInfo | LWarn | LError

text \<open>The lines written through the logger, by template, with the values put into them.\<close>

datatype log_line =
    WhatsAppSent "jval option"
  | WhatsAppFailed "jval option"
  | FonnteError string
  | StartingCheckin string
  | SkippingWeekend
  | SkippingHoliday
  | FetchingUsers
  | FetchUsersFailed string
  | SavedUsers nat
  | NoUsersFound
  | ProcessingEnabled nat
  | WaitingBefore int "jval option"
  | ProcessingUser nat nat "jval option"
  | UserSucceeded "jval option" string
  | UserFailed "jval option" string
  | UserError "jval option" string
  | CheckinComplete nat nat
  | ManualTriggered
  | CronTriggered string
  | RandomDelay int
  | ScheduledCheckinAt real
  | StartingAfterDelay string int

text \<open>
  What a run does that can be seen from outside: a log line, a wait in milliseconds, the
  request to the gateway (target and message), a browser session for a nip with what the
  session did, the reading and writing of the roster file, the call of the employee
  directory, and an entry handed to \<open>addLog\<close>.
\<close>

datatype event =
    Logged log_level log_line
  | Sleep real
  | HttpPost string wa_message
  | Session "jval option" "browser_event list"
  | ReadUsersFile
  | WriteUsersFile "jobject list"
  | FetchPegawai string
  | AddLog jobject

text \<open>The events of one kind in a list of events.\<close>

fun is_request :: "event \<Rightarrow> bool" where
  "is_request (HttpPost _ _) = True"
| "is_request _ = False"

fun is_sleep :: "event \<Rightarrow> bool" where
  "is_sleep (Sleep _) = True"
| "is_sleep _ = False"

fun is_roster_access :: "event \<Rightarrow> bool" where
  "is_roster_access ReadUsersFile = True"
| "is_roster_access (WriteUsersFile _) = True"
| "is_roster_access (FetchPegawai _) = True"
| "is_roster_access _ = False"

fun session_nips :: "event list \<Rightarrow> jval option list" where
  "session_nips [] = []"
| "session_nips (Session nip _ # es) = nip # session_nips es"
| "session_nips (_ # es) = session_nips es"

text \<open>
  The answer of the gateway to the one request: \<^verbatim>\<open>fetch\<close> rejects, the body is not
  JSON, or the parsed body.
\<close>

datatype gateway_reply =
    NetworkError string
  | BodyNotJson string
  | Parsed jval

text \<open>
  A property read \<^verbatim>\<open>v.k\<close> on a parsed value: it throws on \<^verbatim>\<open>null\<close> (the
  message of the error puts the key between two apostrophes, character 0x27), reads
  the field of an object (the last of duplicate keys counts) and is \<^verbatim>\<open>undefined\<close> on
  the other values for the keys read here.
\<close>

fun js_field :: "jval \<Rightarrow> string \<Rightarrow> string + jval option" where
  "js_field JNull k =
     Inl (''Cannot read properties of null (reading '' @ [CHR 0x27] @ k @ [CHR 0x27] @ '')'')"
| "js_field (JObj kvs) k = Inr (map_of (rev kvs) k)"
| "js_field _ k = Inr None"

text \<open>\<^verbatim>\<open>a || b\<close>\<close>

definition js_or :: "jval option \<Rightarrow> jval option \<Rightarrow> jval option" where
  "js_or a b = (if truthy a then a else b)"

record notify_args =
  n_user :: jobject
  n_schedule_name :: string
  n_status_wfh :: "jval option"
  n_success :: bool
  n_message :: notice
  n_fonnteToken :: "jval option"
  n_locationName :: "jval option"

text \<open>
  \<open>sendWhatsAppNotification\<close>, with the time string of the clock and the answer of the
  gateway. \<open>Inl\<close> is an error thrown to the caller. The phone number is reduced to its
  digits outside the \<^verbatim>\<open>try\<close> block: \<^verbatim>\<open>replace\<close> exists on strings only.
\<close>

definition sendWhatsAppNotification ::
  "notify_args \<Rightarrow> string \<Rightarrow> gateway_reply \<Rightarrow> (string + unit) \<times> event list" where
  "sendWhatsAppNotification a timeStr gw =
     (if \<not> truthy (n_user a ''phone'') \<or> \<not> truthy (n_fonnteToken a) then (Inr (), [])
      else
        (case n_user a ''phone'' of
           Some (JStr p) \<Rightarrow>
             (let phone = filter is_digit p;
                  waMessage =
                    \<lparr>wa_success = n_success a,
                     wa_nama = n_user a ''name'',
                     wa_jadwal = n_schedule_name a,
                     wa_waktu = timeStr,
                     wa_lokasi = n_locationName a,
                     wa_mode = (if strict_eq (n_status_wfh a) (Some (JStr ''1'')) then ''WFH'' else ''WFO''),
                     wa_closing = (if n_success a then None else Some (n_message a))\<rparr>
              in (Inr (),
                  HttpPost phone waMessage #
                  (case gw of
                     NetworkError e \<Rightarrow> [Logged LError (FonnteError e)]
                   | BodyNotJson e \<Rightarrow> [Logged LError (FonnteError e)]
                   | Parsed result \<Rightarrow>
                       (case js_field result ''status'' of
                          Inl e \<Rightarrow> [Logged LError (FonnteError e)]
                        | Inr st \<Rightarrow>
                            if truthy st then [Logged LInfo (WhatsAppSent (n_user a ''name''))]
                            else
                              (case js_field result ''reason'' of
                                 Inl e \<Rightarrow> [Logged LError (FonnteError e)]
                               | Inr reason \<Rightarrow>
                                   [Logged LWarn
                                     (WhatsAppFailed (js_or reason (Some (JStr ''Unknown error''))))])))))
         | _ \<Rightarrow> (Inl ''user.phone.replace is not a function'', [])))"


section \<open>Scheduler (src/index.js)\<close>

text \<open>The settings read from the environment, with the defaults of the source.\<close>

record idx_config =
  kodeKantor :: string
  status :: string
  shift :: string
  locationName :: string
  cronPagi :: string
  cronSiang :: string
  cronSore :: string
  fonnteToken :: string

definition config_defaults :: idx_config where
  "config_defaults =
     \<lparr>kodeKantor = ''004036057000000'', status = ''2'', shift = ''1'',
      locationName = ''KSOP Gorontalo'', cronPagi = ''0 7 * * 1-5'',
      cronSiang = ''5 12 * * 1-5'', cronSore = ''0 17 * * 1-5'', fonnteToken = []\<rparr>"

record sched =
  sched_name :: string
  cron :: string
  status_wfh :: string
  sched_shift :: string
  startMinute :: nat
  endMinute :: nat

definition SCHEDULES :: "idx_config \<Rightarrow> sched list" where
  "SCHEDULES config =
     [ \<lparr>sched_name = ''Pagi'', cron = cronPagi config, status_wfh = ''2'', sched_shift = ''1'',
        startMinute = 0, endMinute = 60\<rparr>,
       \<lparr>sched_name = ''Siang'', cron = cronSiang config, status_wfh = ''2'', sched_shift = ''1'',
        startMinute = 0, endMinute = 55\<rparr>,
       \<lparr>sched_name = ''Sore'', cron = cronSore config, status_wfh = ''2'', sched_shift = ''1'',
        startMinute = 0, endMinute = 60\<rparr> ]"

text \<open>
  \<open>getRandomDelayInRange\<close>; \<open>r\<close> is the result of \<^verbatim>\<open>Math.random()\<close>, a number
  from 0 up to but not including 1. The arithmetic is that of the real numbers.
\<close>

definition getRandomDelayInRange :: "sched \<Rightarrow> real \<Rightarrow> real" where
  "getRandomDelayInRange schedule r =
     (let minMs = real (startMinute schedule) * 60 * 1000;
          maxMs = real (if endMinute schedule = 0 then 30 else endMinute schedule) * 60 * 1000
      in minMs + r * (maxMs - minMs))"

text \<open>\<^verbatim>\<open>Math.round\<close>\<close>

definition js_round :: "real \<Rightarrow> int" where
  "js_round x = \<lfloor>x + 1 / 2\<rfloor>"

text \<open>
  What a run meets: the clock at its start (the two guards read it), the roster file,
  the answer of the employee directory, the random numbers drawn for the wait before the
  i-th user and after it, and for each user the browser session, the clock during it, the
  time string of the notification and the answer of the gateway.
\<close>

record world =
  run_clock :: wita_clock
  users_file :: "jobject list json_file"
  pegawai_api :: "string + jobject list"
  pre_delay_draw :: "nat \<Rightarrow> real"
  inter_delay_draw :: "nat \<Rightarrow> real"
  session_of :: "jobject \<Rightarrow> browser_env"
  session_clock :: "jobject \<Rightarrow> wita_clock"
  notify_time :: "jobject \<Rightarrow> string"
  gateway_of :: "jobject \<Rightarrow> gateway_reply"

text \<open>\<open>getUsers\<close>: the roster file when it exists, the employee directory otherwise.\<close>

definition getUsers :: "idx_config \<Rightarrow> world \<Rightarrow> (string + jobject list) \<times> event list" where
  "getUsers config w =
     (case users_file w of
        Stored users \<Rightarrow> (Inr users, [ReadUsersFile])
      | Corrupt \<Rightarrow> (Inl ''Unexpected token in JSON'', [ReadUsersFile])
      | Absent \<Rightarrow>
          (case pegawai_api w of
             Inl e \<Rightarrow>
               (Inr [], [Logged LInfo FetchingUsers, FetchPegawai (kodeKantor config),
                         Logged LError (FetchUsersFailed e)])
           | Inr pegawai \<Rightarrow>
               (let users = map (\<lambda>p. (Map.empty(''nip'' := p ''id'', ''password'' := p ''id'',
                                     ''name'' := p ''text''))
                                   (''phone'' \<mapsto> JStr [], ''enabled'' \<mapsto> JBool True)) pegawai
                in (Inr users, [Logged LInfo FetchingUsers, FetchPegawai (kodeKantor config),
                                WriteUsersFile users, Logged LInfo (SavedUsers (length users))]))))"

text \<open>A row of \<open>results\<close>: nip, name, success and message.\<close>

type_synonym result_row = "jval option \<times> jval option \<times> bool \<times> string"

text \<open>
  One round of the loop over the enabled users, for the user at index \<open>i\<close> of \<open>n\<close>: the
  rows pushed to \<open>results\<close> and the events. An error thrown by the session or by the
  notification is caught, logged and pushed as a failed row.
\<close>

definition checkin_user ::
  "idx_config \<Rightarrow> world \<Rightarrow> string \<Rightarrow> string \<Rightarrow> nat \<Rightarrow> nat \<Rightarrow> jobject
     \<Rightarrow> result_row list \<times> event list" where
  "checkin_user config w schedule_name schedule_wfh i n user =
     (let preDelay = pre_delay_draw w i * 30000;
          waiting = (if preDelay > 1000
                     then [Logged LInfo (WaitingBefore (js_round (preDelay / 1000)) (user ''name'')),
                           Sleep preDelay]
                     else []);
          (outcome, browser) = performCheckin (session_of w user) (session_clock w user);
          started = waiting @ [Logged LInfo (ProcessingUser (i + 1) n (user ''name'')),
                               Session (user ''nip'') browser]
      in case outcome of
           Inl e \<Rightarrow>
             ([(user ''nip'', user ''name'', False, e)],
              started @ [Logged LError (UserError (user ''nip'') e)])
         | Inr result \<Rightarrow>
             (let row = (user ''nip'', user ''name'', success result, message result);
                  reported = started @
                    [if success result then Logged LInfo (UserSucceeded (user ''name'') (message result))
                     else Logged LError (UserFailed (user ''name'') (message result))];
                  (thrown, sent) =
                    (if fonnteToken config \<noteq> [] \<and> truthy (user ''phone'')
                     then sendWhatsAppNotification
                            \<lparr>n_user = user, n_schedule_name = schedule_name,
                             n_status_wfh = Some (JStr schedule_wfh),
                             n_success = success result, n_message = Plain (message result),
                             n_fonnteToken = Some (JStr (fonnteToken config)),
                             n_locationName = Some (JStr (locationName config))\<rparr>
                            (notify_time w user) (gateway_of w user)
                     else (Inr (), []))
              in case thrown of
                   Inl e \<Rightarrow>
                     ([row, (user ''nip'', user ''name'', False, e)],
                      reported @ sent @ [Logged LError (UserError (user ''nip'') e)])
                 | Inr _ \<Rightarrow>
                     ([row],
                      reported @ sent @
                      (if i < n - 1 then [Sleep (3000 + inter_delay_draw w i * 5000)] else []))))"

fun checkin_users ::
  "idx_config \<Rightarrow> world \<Rightarrow> string \<Rightarrow> string \<Rightarrow> nat \<Rightarrow> nat \<Rightarrow> jobject list
     \<Rightarrow> result_row list \<times> event list" where
  "checkin_users config w schedule_name schedule_wfh i n [] = ([], [])"
| "checkin_users config w schedule_name schedule_wfh i n (user # users) =
     (let (rows, evs) = checkin_user config w schedule_name schedule_wfh i n user;
          (rows', evs') = checkin_users config w schedule_name schedule_wfh (i + 1) n users
      in (rows @ rows', evs @ evs'))"

text \<open>
  \<open>runCheckin\<close> of the scheduler. \<open>Inl\<close> is an error thrown (the roster file does not
  parse); \<open>Inr None\<close> is a return without results. The schedule is the entry of
  \<open>SCHEDULES\<close> with the given name, or else an object made of the name and the configured
  status and shift; \<open>schedule_wfh\<close> is its field \<open>status_wfh\<close>.
\<close>

definition runCheckin ::
  "idx_config \<Rightarrow> world \<Rightarrow> string \<Rightarrow> (string + result_row list option) \<times> event list" where
  "runCheckin config w scheduleName =
     (let starting = [Logged LInfo (StartingCheckin scheduleName)]
      in if isWeekend (run_clock w) then (Inr None, starting @ [Logged LInfo SkippingWeekend])
         else if isHoliday (run_clock w) then (Inr None, starting @ [Logged LInfo SkippingHoliday])
         else
           (case getUsers config w of
              (Inl e, loading) \<Rightarrow> (Inl e, starting @ loading)
            | (Inr users, loading) \<Rightarrow>
                if length users = 0
                then (Inr None, starting @ loading @ [Logged LError NoUsersFound])
                else
                  (let enabledUsers =
                         filter (\<lambda>u. truthy (u ''enabled'') \<and> truthy (u ''nip'') \<and>
                                      truthy (u ''password'')) users;
                       schedule_wfh =
                         (case find (\<lambda>s. sched_name s = scheduleName) (SCHEDULES config) of
                            Some s \<Rightarrow> status_wfh s
                          | None \<Rightarrow> status config);
                       (results, evs) =
                         checkin_users config w scheduleName schedule_wfh 0
                           (length enabledUsers) enabledUsers
                   in (Inr (Some results),
                       starting @ loading @
                       [Logged LInfo (ProcessingEnabled (length enabledUsers))] @ evs @
                       [Logged LInfo (CheckinComplete
                          (length (filter (\<lambda>(_, _, ok, _). ok) results))
                          (length (filter (\<lambda>(_, _, ok, _). \<not> ok) results)))]))))"

text \<open>
  The callback that \<^verbatim>\<open>cron.schedule\<close> runs for a schedule; \<open>r\<close> is the one random
  number drawn by \<open>getRandomDelayInRange\<close>. The callback starts the run and does not
  wait for it; the outcome of the run is kept here beside the events.
\<close>

definition cron_callback ::
  "idx_config \<Rightarrow> world \<Rightarrow> sched \<Rightarrow> real \<Rightarrow> (string + result_row list option) \<times> event list" where
  "cron_callback config w schedule r =
     (let randomDelayMs = getRandomDelayInRange schedule r;
          delayMinutes = js_round (randomDelayMs / 60000);
          (res, evs) = runCheckin config w (sched_name schedule)
      in (res,
          [Logged LInfo (CronTriggered (sched_name schedule)),
           Logged LInfo (RandomDelay delayMinutes),
           Logged LInfo (ScheduledCheckinAt randomDelayMs)] @
          (if randomDelayMs > 0 then [Sleep randomDelayMs] else []) @
          [Logged LInfo (StartingAfterDelay (sched_name schedule) delayMinutes)] @ evs))"

text \<open>
  The entry points of the command line that run a check-in at once: \<^verbatim>\<open>--manual\<close> or
  \<^verbatim>\<open>--checkin\<close>, and one flag per window.
\<close>

datatype cli_flag = FlagManual | FlagPagi | FlagSiang | FlagSore

fun cli_run ::
  "idx_config \<Rightarrow> world \<Rightarrow> cli_flag \<Rightarrow> (string + result_row list option) \<times> event list" where
  "cli_run config w FlagManual =
     (let (res, evs) = runCheckin config w ''Manual''
      in (res, Logged LInfo ManualTriggered # evs))"
| "cli_run config w FlagPagi = runCheckin config w ''Pagi''"
| "cli_run config w FlagSiang = runCheckin config w ''Siang''"
| "cli_run config w FlagSore = runCheckin config w ''Sore''"


section \<open>Dashboard trigger (src/server.js)\<close>

text \<open>The decimal digits of a number, as a template prints it.\<close>

fun show_nat :: "nat \<Rightarrow> string" where
  "show_nat n =
     (if n < 10 then [char_of (48 + n)]
      else show_nat (n div 10) @ [char_of (48 + n mod 10)])"

definition getScheduleName :: "wita_clock \<Rightarrow> string" where
  "getScheduleName now =
     (let hour = hours now;
          minute = minutes now;
          totalMinutes = hour * 60 + minute
      in if totalMinutes \<ge> 420 \<and> totalMinutes < 480 then ''Pagi''
         else if totalMinutes \<ge> 720 \<and> totalMinutes < 780 then ''Siang''
         else if totalMinutes \<ge> 1020 \<and> totalMinutes < 1080 then ''Sore''
         else if hour < 12 then ''Pagi''
         else if hour < 16 then ''Siang''
         else ''Sore'')"

text \<open>
  The entries handed to \<open>addLog\<close>. A field whose value is \<^verbatim>\<open>undefined\<close> is absent. The
  two success outcomes of the classifier carry a time field (possibly \<^verbatim>\<open>null\<close>), the
  other outcomes carry none.
\<close>

definition run_entry :: "string \<Rightarrow> jobject" where
  "run_entry msg = [''type'' \<mapsto> JStr ''info'', ''message'' \<mapsto> JStr msg]"

definition user_entry :: "string \<Rightarrow> jobject \<Rightarrow> string \<Rightarrow> jobject" where
  "user_entry kind user msg =
     (Map.empty(''user'' := js_or (user ''name'') (user ''nip'')))
       (''type'' \<mapsto> JStr kind, ''message'' \<mapsto> JStr msg)"

definition result_entry :: "jobject \<Rightarrow> checkin_result \<Rightarrow> string \<Rightarrow> string \<Rightarrow> jobject" where
  "result_entry user result logMessage schedule =
     (Map.empty(''user'' := js_or (user ''name'') (user ''nip''),
                ''checkinTime'' :=
                  (if success result
                   then Some (case checkinTime result of None \<Rightarrow> JNull | Some t \<Rightarrow> JStr t)
                   else None)))
       (''type'' \<mapsto> JStr (if success result then ''success'' else ''error''),
        ''message'' \<mapsto> JStr logMessage, ''schedule'' \<mapsto> JStr schedule)"

definition log_message :: "checkin_result \<Rightarrow> string \<Rightarrow> string" where
  "log_message result schedule =
     (if success result then
        (case checkinTime result of
           None \<Rightarrow> ''Check-in '' @ schedule @ '' berhasil!''
         | Some t \<Rightarrow>
             if t = [] then ''Check-in '' @ schedule @ '' berhasil!''
             else ''Telah melakukan check-in '' @ schedule @ '' pukul '' @ t)
      else ''Gagal check-in '' @ schedule @ '': '' @ message result)"

text \<open>One round of the loop of the dashboard's \<open>runCheckin\<close>.\<close>

definition server_user :: "jobject \<Rightarrow> world \<Rightarrow> string \<Rightarrow> nat \<Rightarrow> nat \<Rightarrow> jobject \<Rightarrow> event list" where
  "server_user config w schedule i n user =
     (let delay = pre_delay_draw w i * 30000;
          waiting = (if delay > 1000 then [Sleep delay] else []);
          (outcome, browser) = performCheckin (session_of w user) (session_clock w user);
          started = waiting @
            [AddLog (user_entry ''info'' user (''Memulai check-in '' @ schedule @ ''...'')),
             Session (user ''nip'') browser]
      in case outcome of
           Inl e \<Rightarrow>
             started @ [AddLog (user_entry ''error'' user (''Gagal check-in '' @ schedule @ '': '' @ e))]
         | Inr result \<Rightarrow>
             (let logMessage = log_message result schedule;
                  reported = started @ [AddLog (result_entry user result logMessage schedule)];
                  (thrown, sent) =
                    (if truthy (config ''fonnteToken'') \<and> truthy (user ''phone'')
                     then sendWhatsAppNotification
                            \<lparr>n_user = user, n_schedule_name = schedule,
                             n_status_wfh = config ''status'',
                             n_success = success result,
                             n_message =
                               DashboardNotice (success result)
                                 (js_or (user ''name'') (Some (JStr ''Bapak/Ibu'')))
                                 logMessage (config ''locationName''),
                             n_fonnteToken = config ''fonnteToken'',
                             n_locationName = config ''locationName''\<rparr>
                            (notify_time w user) (gateway_of w user)
                     else (Inr (), []))
              in case thrown of
                   Inl e \<Rightarrow>
                     reported @ sent @
                     [AddLog (user_entry ''error'' user (''Gagal check-in '' @ schedule @ '': '' @ e))]
                 | Inr _ \<Rightarrow>
                     reported @ sent @
                     (if i < n - 1 then [Sleep (3000 + inter_delay_draw w i * 5000)] else [])))"

fun server_users :: "jobject \<Rightarrow> world \<Rightarrow> string \<Rightarrow> nat \<Rightarrow> nat \<Rightarrow> jobject list \<Rightarrow> event list" where
  "server_users config w schedule i n [] = []"
| "server_users config w schedule i n (user # users) =
     server_user config w schedule i n user @ server_users config w schedule (i + 1) n users"

text \<open>\<open>runCheckin\<close> of the dashboard (another function than the scheduler's).\<close>

definition server_runCheckin :: "world \<Rightarrow> jobject list \<Rightarrow> jobject \<Rightarrow> string \<Rightarrow> event list" where
  "server_runCheckin w users config scheduleName =
     (let schedule = (if scheduleName = ''manual'' then getScheduleName (run_clock w) else scheduleName)
      in [AddLog (run_entry (''Memulai check-in '' @ schedule @ '' untuk '' @
                    show_nat (length users) @ '' user''))] @
         server_users config w schedule 0 (length users) users @
         [AddLog (run_entry (''Check-in '' @ schedule @ '' selesai untuk '' @
                    show_nat (length users) @ '' user''))])"

text \<open>
  \<^verbatim>\<open>app.post('/api/trigger')\<close>: the reply (its time stamp left out) and the events of
  the run started in the background.
\<close>

definition post_trigger ::
  "world \<Rightarrow> jobject json_file \<Rightarrow> jobject list json_file \<Rightarrow> reply \<times> event list" where
  "post_trigger w config_file roster_file =
     (let config = loadConfig config_file;
          users = filter (\<lambda>u. truthy (u ''enabled'') \<and> truthy (u ''nip'') \<and> truthy (u ''password''))
                    (loadUsers roster_file)
      in if length users = 0
         then (\<lparr>reply_success = False, reply_message = ''No enabled users found''\<rparr>, [])
         else (\<lparr>reply_success = True,
                reply_message = ''Check-in started for '' @ show_nat (length users) @ '' users''\<rparr>,
               server_runCheckin w users config ''manual''))"


section \<open>Calendar properties\<close>

lemma HOLIDAYS_length: "length HOLIDAYS = 31"
  by (simp add: HOLIDAYS_def)

text \<open>
  Claim C2. On every date of the static holiday list the working-day test is false; on
  every Saturday and on every Sunday it is false; on every other day of the week whose
  date is not in the list it is true.
\<close>

theorem isWorkingDay_spec:
  "(date_en_CA now \<in> set HOLIDAYS \<longrightarrow> \<not> isWorkingDay now) \<and>
   (week_day now = 6 \<or> week_day now = 0 \<longrightarrow> \<not> isWorkingDay now) \<and>
   (week_day now \<noteq> 6 \<and> week_day now \<noteq> 0 \<and> date_en_CA now \<notin> set HOLIDAYS
      \<longrightarrow> isWorkingDay now)"
  by (auto simp: isWorkingDay_def isWeekend_def isHoliday_def)

theorem isWorkingDay_spec_witness:
  "\<not> isWorkingDay \<lparr>date_en_CA = ''2025-12-25'', week_day = 4, hours = 7, minutes = 0,
       time_id_ID = ''07.00.00''\<rparr> \<and>
   \<not> isWorkingDay \<lparr>date_en_CA = ''2025-11-01'', week_day = 6, hours = 7, minutes = 0,
       time_id_ID = ''07.00.00''\<rparr> \<and>
   \<not> isWorkingDay \<lparr>date_en_CA = ''2025-11-02'', week_day = 0, hours = 7, minutes = 0,
       time_id_ID = ''07.00.00''\<rparr> \<and>
   isWorkingDay \<lparr>date_en_CA = ''2025-11-03'', week_day = 1, hours = 7, minutes = 0,
       time_id_ID = ''07.00.00''\<rparr>"
  using
    isWorkingDay_spec [of "\<lparr>date_en_CA = ''2025-12-25'', week_day = 4, hours = 7, minutes = 0,
       time_id_ID = ''07.00.00''\<rparr>"]
    isWorkingDay_spec [of "\<lparr>date_en_CA = ''2025-11-01'', week_day = 6, hours = 7, minutes = 0,
       time_id_ID = ''07.00.00''\<rparr>"]
    isWorkingDay_spec [of "\<lparr>date_en_CA = ''2025-11-02'', week_day = 0, hours = 7, minutes = 0,
       time_id_ID = ''07.00.00''\<rparr>"]
    isWorkingDay_spec [of "\<lparr>date_en_CA = ''2025-11-03'', week_day = 1, hours = 7, minutes = 0,
       time_id_ID = ''07.00.00''\<rparr>"]
  by (simp add: HOLIDAYS_def)


section \<open>Rolling log properties\<close>













section \<open>Configuration properties\<close>

lemma map_add_same: "m ++ m = m"
  by (rule ext) (simp add: map_add_def split: option.splits)

lemma loadConfig_absorbs_defaults: "DEFAULT_CONFIG ++ loadConfig f = loadConfig f"
proof (cases f)
  case (Stored c)
  have "DEFAULT_CONFIG ++ (DEFAULT_CONFIG ++ c) = (DEFAULT_CONFIG ++ DEFAULT_CONFIG) ++ c"
    by simp
  then show ?thesis by (simp add: Stored loadConfig_def map_add_same)
qed (simp_all add: loadConfig_def map_add_same)

lemma post_config_stored: "fst (post_config f body) = Stored (loadConfig f ++ body)"
  by (simp add: post_config_def saveConfigFile_def Let_def)

lemma loadConfig_post_config:
  "loadConfig (fst (post_config f body)) = loadConfig f ++ body"
proof -
  have "loadConfig (fst (post_config f body)) = DEFAULT_CONFIG ++ (loadConfig f ++ body)"
    by (simp add: post_config_stored loadConfig_def)
  also have "\<dots> = (DEFAULT_CONFIG ++ loadConfig f) ++ body"
    by simp
  finally show ?thesis by (simp only: loadConfig_absorbs_defaults)
qed


text \<open>
  Claim C8. Saving the configuration merges: the file then holds the configuration loaded
  before with the submitted fields laid over it, so every submitted field has the submitted
  content and every field that was left out keeps the content it had. Submitting only a
  latitude leaves all other fields as they were.
\<close>

theorem post_config_merge:
  "fst (post_config f body) = Stored (loadConfig f ++ body) \<and>
   (\<forall>k. k \<in> dom body \<longrightarrow> loadConfig (fst (post_config f body)) k = body k) \<and>
   (\<forall>k. k \<notin> dom body \<longrightarrow> loadConfig (fst (post_config f body)) k = loadConfig f k) \<and>
   reply_success (snd (post_config f body))"
proof -
  have "reply_success (snd (post_config f body))"
    by (simp add: post_config_def Let_def)
  moreover have "\<forall>k. k \<in> dom body \<longrightarrow> (loadConfig f ++ body) k = body k"
    by (auto simp: map_add_def)
  moreover have "\<forall>k. k \<notin> dom body \<longrightarrow> (loadConfig f ++ body) k = loadConfig f k"
    by (auto simp: map_add_def split: option.splits)
  moreover note loadConfig_post_config [of f body] post_config_stored [of f body]
  ultimately show ?thesis
    by simp
qed

theorem post_config_merge_witness:
  "loadConfig (fst (post_config
       (Stored [''kodeKantor'' \<mapsto> JStr ''X'', ''latitude'' \<mapsto> JNum 0.5])
       [''latitude'' \<mapsto> JNum 1.0])) ''latitude'' = Some (JNum 1.0) \<and>
   loadConfig (fst (post_config
       (Stored [''kodeKantor'' \<mapsto> JStr ''X'', ''latitude'' \<mapsto> JNum 0.5])
       [''latitude'' \<mapsto> JNum 1.0])) ''kodeKantor'' = Some (JStr ''X'') \<and>
   loadConfig (fst (post_config
       (Stored [''kodeKantor'' \<mapsto> JStr ''X'', ''latitude'' \<mapsto> JNum 0.5])
       [''latitude'' \<mapsto> JNum 1.0])) ''longitude'' = Some (JNum 123.058388)"
proof -
  let ?f = "Stored [''kodeKantor'' \<mapsto> JStr ''X'', ''latitude'' \<mapsto> JNum 0.5]"
  let ?b = "[''latitude'' \<mapsto> JNum 1.0]"
  from post_config_merge [of ?f ?b]
  have inside: "\<And>k. k \<in> dom ?b \<Longrightarrow> loadConfig (fst (post_config ?f ?b)) k = ?b k"
    and outside: "\<And>k. k \<notin> dom ?b \<Longrightarrow> loadConfig (fst (post_config ?f ?b)) k = loadConfig ?f k"
    by blast+
  have "loadConfig (fst (post_config ?f ?b)) ''latitude'' = Some (JNum 1.0)"
    using inside [of "''latitude''"] by simp
  moreover have "loadConfig (fst (post_config ?f ?b)) ''kodeKantor'' = Some (JStr ''X'')"
    using outside [of "''kodeKantor''"] by (simp add: loadConfig_def)
  moreover have "loadConfig (fst (post_config ?f ?b)) ''longitude'' = Some (JNum 123.058388)"
    using outside [of "''longitude''"] by (simp add: loadConfig_def DEFAULT_CONFIG_def)
  ultimately show ?thesis by blast
qed


section \<open>Roster properties\<close>

lemma strict_eq_imp_eq: "strict_eq a b \<Longrightarrow> a = b"
  by (induction a b rule: strict_eq.induct) simp_all

lemma strict_eq_sym: "strict_eq a b = strict_eq b a"
  by (induction a b rule: strict_eq.induct) auto

lemma strict_eq_primitive: "primitive a \<Longrightarrow> strict_eq a b = (a = b)"
  by (induction a b rule: strict_eq.induct) auto

lemma same_nip_imp_eq: "same_nip body u \<Longrightarrow> nip_of u = nip_of body"
  by (simp add: same_nip_def strict_eq_imp_eq)

lemma same_nip_primitive:
  assumes "primitive (nip_of body)"
  shows "same_nip body u = (nip_of u = nip_of body)"
proof -
  have "same_nip body u = strict_eq (nip_of body) (nip_of u)"
    by (simp only: same_nip_def strict_eq_sym [of "nip_of u" "nip_of body"])
  also have "\<dots> = (nip_of body = nip_of u)"
    using assms by (rule strict_eq_primitive)
  also have "\<dots> = (nip_of u = nip_of body)"
    by (rule eq_commute)
  finally show ?thesis .
qed

lemma findIndex_range: "findIndex p xs = -1 \<or> (0 \<le> findIndex p xs \<and> findIndex p xs < int (length xs))"
  by (induction xs) (auto simp: Let_def)

lemma findIndex_none: "findIndex p xs < 0 \<longleftrightarrow> (\<forall>x \<in> set xs. \<not> p x)"
  using findIndex_range [of p] by (induction xs) (auto simp: Let_def)

lemma findIndex_hit: "0 \<le> findIndex p xs \<Longrightarrow> p (xs ! nat (findIndex p xs))"
proof (induction xs)
  case Nil
  then show ?case by simp
next
  case (Cons x xs)
  show ?case
  proof (cases "p x")
    case True
    then show ?thesis by simp
  next
    case False
    with Cons.prems have nn: "0 \<le> findIndex p xs"
      by (simp add: Let_def split: if_splits)
    with False Cons.IH show ?thesis
      by (simp add: Let_def nat_add_distrib)
  qed
qed

lemma findIndex_first: "0 \<le> findIndex p xs \<Longrightarrow> j < nat (findIndex p xs) \<Longrightarrow> \<not> p (xs ! j)"
proof (induction xs arbitrary: j)
  case Nil
  then show ?case by simp
next
  case (Cons x xs)
  show ?case
  proof (cases "p x")
    case True
    with Cons.prems show ?thesis by simp
  next
    case False
    with Cons.prems have nn: "0 \<le> findIndex p xs"
      by (simp add: Let_def split: if_splits)
    show ?thesis
    proof (cases j)
      case 0
      with False show ?thesis by simp
    next
      case (Suc k)
      with Cons.prems False nn have "k < nat (findIndex p xs)"
        by (simp add: Let_def nat_add_distrib)
      with Cons.IH nn Suc show ?thesis by simp
    qed
  qed
qed

lemma merged_nip: "same_nip body u \<Longrightarrow> nip_of (u ++ body) = nip_of u"
  by (auto simp: same_nip_def nip_of_def map_add_def dest: strict_eq_imp_eq split: option.splits)

lemma toggle_first_nips:
  "toggle_first body us = Some vs \<Longrightarrow> map nip_of vs = map nip_of us"
  by (induction us arbitrary: vs) (auto simp: nip_of_def split: if_splits)

lemma toggle_first_None: "toggle_first body us = None \<longleftrightarrow> (\<forall>u \<in> set us. \<not> same_nip body u)"
  by (induction us) auto

lemma post_users_present:
  assumes "\<exists>u \<in> set (loadUsers f). same_nip body u"
  shows "\<exists>i < length (loadUsers f).
           same_nip body (loadUsers f ! i) \<and>
           (\<forall>j < i. \<not> same_nip body (loadUsers f ! j)) \<and>
           fst (post_users f body now) = Stored ((loadUsers f)[i := (loadUsers f ! i) ++ body])"
proof -
  let ?us = "loadUsers f"
  let ?i = "findIndex (same_nip body) ?us"
  from assms have nn: "0 \<le> ?i"
    using findIndex_none [of "same_nip body" ?us] by auto
  with findIndex_range [of "same_nip body" ?us] have lt: "nat ?i < length ?us"
    by auto
  have "fst (post_users f body now) = Stored (?us[nat ?i := (?us ! nat ?i) ++ body])"
    using nn by (simp add: post_users_def Let_def saveUsers_def)
  with lt findIndex_hit [OF nn] findIndex_first [OF nn] show ?thesis
    by blast
qed

lemma post_users_absent:
  assumes "\<forall>u \<in> set (loadUsers f). \<not> same_nip body u"
  shows "fst (post_users f body now) =
     Stored (loadUsers f @ [body ++ [''enabled'' \<mapsto> JBool True, ''createdAt'' \<mapsto> JStr now]])"
proof -
  from assms have "findIndex (same_nip body) (loadUsers f) < 0"
    by (simp add: findIndex_none)
  then show ?thesis
    by (simp add: post_users_def Let_def saveUsers_def)
qed

lemma new_record_nip:
  "nip_of (body ++ [''enabled'' \<mapsto> JBool True, ''createdAt'' \<mapsto> JStr now]) = nip_of body"
  by (simp add: nip_of_def map_add_def)

lemma update_keeps_nips:
  assumes "i < length us" "same_nip body (us ! i)"
  shows "map nip_of (us[i := (us ! i) ++ body]) = map nip_of us"
proof -
  have "map nip_of (us[i := (us ! i) ++ body]) = (map nip_of us)[i := nip_of ((us ! i) ++ body)]"
    by (simp add: map_update)
  also have "\<dots> = (map nip_of us)[i := (map nip_of us) ! i]"
    using assms by (simp add: merged_nip)
  finally show ?thesis by simp
qed

lemma present_iff:
  assumes "primitive (nip_of body)"
  shows "(\<exists>u \<in> set us. same_nip body u) = (nip_of body \<in> set (map nip_of us))"
proof
  assume "\<exists>u \<in> set us. same_nip body u"
  then obtain u where u: "u \<in> set us" "same_nip body u" by blast
  from same_nip_imp_eq [OF u(2)] have "nip_of body = nip_of u" by simp
  from this u(1) show "nip_of body \<in> set (map nip_of us)"
    unfolding set_map by (rule image_eqI)
next
  assume "nip_of body \<in> set (map nip_of us)"
  then obtain u where u: "u \<in> set us" "nip_of body = nip_of u"
    unfolding set_map by (rule imageE)
  from u(2) same_nip_primitive [OF assms, of u] have "same_nip body u" by simp
  with u(1) show "\<exists>u \<in> set us. same_nip body u" by blast
qed

lemma absent_imp_no_match:
  assumes "nip_of body \<notin> set (map nip_of us)"
  shows "\<forall>u \<in> set us. \<not> same_nip body u"
proof
  fix u
  assume u: "u \<in> set us"
  show "\<not> same_nip body u"
  proof
    assume "same_nip body u"
    from same_nip_imp_eq [OF this] have "nip_of body = nip_of u" by simp
    from this u have "nip_of body \<in> set (map nip_of us)"
      unfolding set_map by (rule image_eqI)
    with assms show False by contradiction
  qed
qed

lemma post_users_distinct:
  assumes "distinct (map nip_of (loadUsers f))" "primitive (nip_of body)"
  shows "distinct (map nip_of (loadUsers (fst (post_users f body now))))"
proof (cases "\<exists>u \<in> set (loadUsers f). same_nip body u")
  case True
  from post_users_present [OF True, of now] obtain i where
    i: "i < length (loadUsers f)" "same_nip body (loadUsers f ! i)"
       "fst (post_users f body now) = Stored ((loadUsers f)[i := (loadUsers f ! i) ++ body])"
    by blast
  from update_keeps_nips [OF i(1) i(2)] assms(1) i(3) show ?thesis
    by (simp add: loadUsers_def)
next
  case False
  then have ab: "\<forall>u \<in> set (loadUsers f). \<not> same_nip body u" by blast
  with present_iff [OF assms(2), of "loadUsers f"]
  have "nip_of body \<notin> set (map nip_of (loadUsers f))"
    by blast
  with assms(1) post_users_absent [OF ab, of now] new_record_nip [of body now] show ?thesis
    by (simp add: loadUsers_def)
qed

lemma delete_users_distinct:
  "distinct (map nip_of (loadUsers f)) \<Longrightarrow>
   distinct (map nip_of (loadUsers (fst (delete_users f body))))"
  by (simp add: delete_users_def saveUsers_def loadUsers_def distinct_map_filter)

lemma toggle_users_distinct:
  assumes "distinct (map nip_of (loadUsers f))"
  shows "distinct (map nip_of (loadUsers (fst (toggle_users f body))))"
proof (cases "toggle_first body (loadUsers f)")
  case None
  with assms show ?thesis by (simp add: toggle_users_def)
next
  case (Some vs)
  from toggle_first_nips [OF Some] assms Some show ?thesis
    by (simp add: toggle_users_def saveUsers_def loadUsers_def)
qed

lemma toggle_users_absent:
  "\<forall>u \<in> set (loadUsers f). \<not> same_nip body u \<Longrightarrow>
   toggle_users f body = (f, \<lparr>reply_success = True, reply_message = ''User toggled''\<rparr>)"
  using toggle_first_None [of body "loadUsers f"] by (simp add: toggle_users_def)

lemma one_record_per_nip:
  "distinct (map nip_of us) \<Longrightarrow> v \<in> set (map nip_of us) \<Longrightarrow>
   length (filter (\<lambda>u. nip_of u = v) us) = 1"
proof (induction us)
  case Nil
  then show ?case by simp
next
  case (Cons u us)
  show ?case
  proof (cases "nip_of u = v")
    case True
    with Cons.prems(1) have "v \<notin> set (map nip_of us)" by simp
    then have "\<forall>w \<in> set us. nip_of w \<noteq> v"
      unfolding set_map by blast
    then have "filter (\<lambda>u. nip_of u = v) us = []"
      by (simp add: filter_empty_conv)
    with True show ?thesis by simp
  next
    case False
    with Cons.prems have "distinct (map nip_of us)" "v \<in> set (map nip_of us)"
      by simp_all
    with Cons.IH False show ?thesis by simp
  qed
qed

text \<open>
  Claim C10 as the specification states it covers every submitted nip. The test for a
  record with the submitted nip is \<^verbatim>\<open>===\<close>, which never holds between two arrays (or
  objects) that come from different parses. A roster with the single nip \<open>[7]\<close> has
  pairwise distinct nips; saving a user with the nip \<open>[7]\<close> again finds no record and
  appends a second record with the same nip.
\<close>

theorem post_users_array_nip_counterexample:
  "distinct (map nip_of (loadUsers (Stored [[''nip'' \<mapsto> JArr [JNum 7]]]))) \<and>
   map nip_of (loadUsers (fst (post_users (Stored [[''nip'' \<mapsto> JArr [JNum 7]]])
      [''nip'' \<mapsto> JArr [JNum 7]] ''2025-11-03T00:00:00.000Z''))) =
     [Some (JArr [JNum 7]), Some (JArr [JNum 7])]"
  by (simp add: loadUsers_def post_users_def saveUsers_def same_nip_def nip_of_def)

text \<open>
  Claim C10, amended. On a roster whose nips are pairwise distinct (as values) every roster
  operation of the dashboard keeps them so, provided the nip submitted to the save
  operation is a primitive (a string, a number, a boolean, null, or absent). Saving a user
  whose nip is present merges the submitted fields into the record with that nip, in
  place: no record is added, and afterwards exactly one record has that nip. Saving a user
  with a new nip appends exactly one record. Deleting and toggling never introduce a
  duplicate, whatever is submitted; toggling a nip that is not in the roster leaves the
  roster file as it is and still replies with success.
\<close>

theorem roster_nips_stay_distinct:
  assumes "distinct (map nip_of (loadUsers f))"
  shows
    "(primitive (nip_of body) \<longrightarrow>
        distinct (map nip_of (loadUsers (fst (post_users f body now)))) \<and>
        (nip_of body \<in> set (map nip_of (loadUsers f)) \<longrightarrow>
           (\<exists>i < length (loadUsers f).
               nip_of (loadUsers f ! i) = nip_of body \<and>
               loadUsers (fst (post_users f body now)) =
                 (loadUsers f)[i := (loadUsers f ! i) ++ body]) \<and>
           length (loadUsers (fst (post_users f body now))) = length (loadUsers f) \<and>
           length (filter (\<lambda>u. nip_of u = nip_of body)
                     (loadUsers (fst (post_users f body now)))) = 1) \<and>
        (nip_of body \<notin> set (map nip_of (loadUsers f)) \<longrightarrow>
           loadUsers (fst (post_users f body now)) =
             loadUsers f @ [body ++ [''enabled'' \<mapsto> JBool True, ''createdAt'' \<mapsto> JStr now]])) \<and>
     distinct (map nip_of (loadUsers (fst (delete_users f body)))) \<and>
     (\<forall>u \<in> set (loadUsers (fst (delete_users f body))). \<not> same_nip body u) \<and>
     distinct (map nip_of (loadUsers (fst (toggle_users f body)))) \<and>
     map nip_of (loadUsers (fst (toggle_users f body))) = map nip_of (loadUsers f) \<and>
     (nip_of body \<notin> set (map nip_of (loadUsers f)) \<longrightarrow> fst (toggle_users f body) = f) \<and>
     reply_success (snd (toggle_users f body))"
proof -
  have present:
    "(\<exists>i < length (loadUsers f).
         nip_of (loadUsers f ! i) = nip_of body \<and>
         loadUsers (fst (post_users f body now)) =
           (loadUsers f)[i := (loadUsers f ! i) ++ body]) \<and>
     length (loadUsers (fst (post_users f body now))) = length (loadUsers f) \<and>
     length (filter (\<lambda>u. nip_of u = nip_of body) (loadUsers (fst (post_users f body now)))) = 1"
    if prim: "primitive (nip_of body)" and mem: "nip_of body \<in> set (map nip_of (loadUsers f))"
  proof -
    from present_iff [OF prim, of "loadUsers f"] mem
    have ex: "\<exists>u \<in> set (loadUsers f). same_nip body u" by blast
    from post_users_present [OF ex, of now] obtain i where
      i: "i < length (loadUsers f)" "same_nip body (loadUsers f ! i)"
         "fst (post_users f body now) = Stored ((loadUsers f)[i := (loadUsers f ! i) ++ body])"
      by blast
    from i(3) have eq: "loadUsers (fst (post_users f body now)) =
        (loadUsers f)[i := (loadUsers f ! i) ++ body]"
      by (simp add: loadUsers_def)
    have nips: "map nip_of (loadUsers (fst (post_users f body now))) = map nip_of (loadUsers f)"
      using update_keeps_nips [OF i(1) i(2)] eq by simp
    from one_record_per_nip [of "loadUsers (fst (post_users f body now))" "nip_of body"]
      nips assms mem
    have "length (filter (\<lambda>u. nip_of u = nip_of body) (loadUsers (fst (post_users f body now)))) = 1"
      by simp
    with eq i(1) same_nip_imp_eq [OF i(2)] show ?thesis
      by auto
  qed
  have absent:
    "loadUsers (fst (post_users f body now)) =
       loadUsers f @ [body ++ [''enabled'' \<mapsto> JBool True, ''createdAt'' \<mapsto> JStr now]]"
    if ab: "nip_of body \<notin> set (map nip_of (loadUsers f))"
    using post_users_absent [OF absent_imp_no_match [OF ab], of now] by (simp add: loadUsers_def)
  have tog: "fst (toggle_users f body) = f"
    if ab: "nip_of body \<notin> set (map nip_of (loadUsers f))"
    using toggle_users_absent [OF absent_imp_no_match [OF ab]] by simp
  have tognips: "map nip_of (loadUsers (fst (toggle_users f body))) = map nip_of (loadUsers f)"
  proof (cases "toggle_first body (loadUsers f)")
    case None
    then show ?thesis by (simp add: toggle_users_def)
  next
    case (Some vs)
    with toggle_first_nips [OF Some] show ?thesis
      by (simp add: toggle_users_def saveUsers_def loadUsers_def)
  qed
  have del: "\<forall>u \<in> set (loadUsers (fst (delete_users f body))). \<not> same_nip body u"
    by (simp add: delete_users_def saveUsers_def loadUsers_def)
  have rep: "reply_success (snd (toggle_users f body))"
    by (simp add: toggle_users_def split: option.splits)
  from post_users_distinct [OF assms, of body now] delete_users_distinct [OF assms, of body]
    toggle_users_distinct [OF assms, of body] present absent tog tognips del rep
  show ?thesis by blast
qed

theorem roster_nips_stay_distinct_witness:
  "distinct (map nip_of (loadUsers (fst (post_users
      (Stored [[''nip'' \<mapsto> JStr ''1'', ''name'' \<mapsto> JStr ''A''], [''nip'' \<mapsto> JStr ''2'']])
      [''nip'' \<mapsto> JStr ''2'', ''phone'' \<mapsto> JStr ''08''] ''t'')))) \<and>
   length (loadUsers (fst (post_users
      (Stored [[''nip'' \<mapsto> JStr ''1'', ''name'' \<mapsto> JStr ''A''], [''nip'' \<mapsto> JStr ''2'']])
      [''nip'' \<mapsto> JStr ''2'', ''phone'' \<mapsto> JStr ''08''] ''t''))) = 2 \<and>
   length (loadUsers (fst (post_users
      (Stored [[''nip'' \<mapsto> JStr ''1'', ''name'' \<mapsto> JStr ''A''], [''nip'' \<mapsto> JStr ''2'']])
      [''nip'' \<mapsto> JStr ''3''] ''t''))) = 3 \<and>
   fst (toggle_users
      (Stored [[''nip'' \<mapsto> JStr ''1'', ''name'' \<mapsto> JStr ''A''], [''nip'' \<mapsto> JStr ''2'']])
      [''nip'' \<mapsto> JStr ''3'']) =
      Stored [[''nip'' \<mapsto> JStr ''1'', ''name'' \<mapsto> JStr ''A''], [''nip'' \<mapsto> JStr ''2'']]"
proof -
  let ?f = "Stored [[''nip'' \<mapsto> JStr ''1'', ''name'' \<mapsto> JStr ''A''], [''nip'' \<mapsto> JStr ''2'']]"
  let ?b2 = "[''nip'' \<mapsto> JStr ''2'', ''phone'' \<mapsto> JStr ''08'']"
  let ?b3 = "[''nip'' \<mapsto> JStr ''3'']"
  have d: "distinct (map nip_of (loadUsers ?f))"
    by (simp add: loadUsers_def nip_of_def)
  have p2: "primitive (nip_of ?b2) \<and> nip_of ?b2 \<in> set (map nip_of (loadUsers ?f))"
    by (simp add: loadUsers_def nip_of_def)
  have a3: "primitive (nip_of ?b3) \<and> nip_of ?b3 \<notin> set (map nip_of (loadUsers ?f))"
    by (simp add: loadUsers_def nip_of_def)
  from roster_nips_stay_distinct [OF d, of ?b2 "''t''"] p2
  have "distinct (map nip_of (loadUsers (fst (post_users ?f ?b2 ''t''))))"
    and "length (loadUsers (fst (post_users ?f ?b2 ''t''))) = length (loadUsers ?f)"
    by blast+
  moreover from roster_nips_stay_distinct [OF d, of ?b3 "''t''"] a3
  have "loadUsers (fst (post_users ?f ?b3 ''t'')) =
          loadUsers ?f @ [?b3 ++ [''enabled'' \<mapsto> JBool True, ''createdAt'' \<mapsto> JStr ''t'']]"
    and "fst (toggle_users ?f ?b3) = ?f"
    by blast+
  moreover have "length (loadUsers ?f) = 2"
    by (simp add: loadUsers_def)
  ultimately show ?thesis
    by simp
qed


section \<open>Page classification properties\<close>

lemma starts_with_prefix: "starts_with s p = prefix p s"
  by (induction s p rule: starts_with.induct) auto

lemma str_includes_sublist: "str_includes s p = sublist p s"
  by (induction s) (simp_all add: starts_with_prefix sublist_Cons_right)

lemma classify_page_groups:
  "classify_page content url title ct =
     (if group_matches SuccessMarkers content url then (group_outcome SuccessMarkers ct, [])
      else if group_matches AlreadySubmitted content url then (group_outcome AlreadySubmitted ct, [])
      else if group_matches InvalidCredential content url then (group_outcome InvalidCredential ct, [])
      else if group_matches TooEarly content url then (group_outcome TooEarly ct, [])
      else if group_matches LocationProblem content url then (group_outcome LocationProblem ct, [])
      else (unrecognized title, [''unknown_result'']))"
proof -
  consider
      (success) "group_matches SuccessMarkers content url"
    | (already) "\<not> group_matches SuccessMarkers content url"
        "group_matches AlreadySubmitted content url"
    | (invalid) "\<not> group_matches SuccessMarkers content url"
        "\<not> group_matches AlreadySubmitted content url"
        "group_matches InvalidCredential content url"
    | (early) "\<not> group_matches SuccessMarkers content url"
        "\<not> group_matches AlreadySubmitted content url"
        "\<not> group_matches InvalidCredential content url"
        "group_matches TooEarly content url"
    | (location) "\<not> group_matches SuccessMarkers content url"
        "\<not> group_matches AlreadySubmitted content url"
        "\<not> group_matches InvalidCredential content url"
        "\<not> group_matches TooEarly content url"
        "group_matches LocationProblem content url"
    | (none) "\<not> group_matches SuccessMarkers content url"
        "\<not> group_matches AlreadySubmitted content url"
        "\<not> group_matches InvalidCredential content url"
        "\<not> group_matches TooEarly content url"
        "\<not> group_matches LocationProblem content url"
    by blast
  then show ?thesis
  proof cases
    case success
    then show ?thesis
      by (simp add: classify_page_def with_time_def split: option.split)
  next
    case already
    then show ?thesis
      by (simp add: classify_page_def with_time_def split: option.split)
  next
    case invalid
    then show ?thesis
      by (simp add: classify_page_def)
  next
    case early
    then show ?thesis
      by (simp add: classify_page_def)
  next
    case location
    then show ?thesis
      by (simp add: classify_page_def)
  next
    case none
    then show ?thesis
      by (simp add: classify_page_def unrecognized_def)
  qed
qed


lemma find_priority_order:
  "find (\<lambda>g. group_matches g content url) priority_order =
     (if group_matches SuccessMarkers content url then Some SuccessMarkers
      else if group_matches AlreadySubmitted content url then Some AlreadySubmitted
      else if group_matches InvalidCredential content url then Some InvalidCredential
      else if group_matches TooEarly content url then Some TooEarly
      else if group_matches LocationProblem content url then Some LocationProblem
      else None)"
  by (simp add: priority_order_def del: group_matches.simps)

lemma first_match_outcome_groups:
  "first_match_outcome content url title ct =
     (if group_matches SuccessMarkers content url then group_outcome SuccessMarkers ct
      else if group_matches AlreadySubmitted content url then group_outcome AlreadySubmitted ct
      else if group_matches InvalidCredential content url then group_outcome InvalidCredential ct
      else if group_matches TooEarly content url then group_outcome TooEarly ct
      else if group_matches LocationProblem content url then group_outcome LocationProblem ct
      else unrecognized title)"
  by (simp add: first_match_outcome_def find_priority_order
      del: group_matches.simps group_outcome.simps)

lemma classify_page_code_groups:
  "fst (classify_page content url title ct) = first_match_outcome content url title ct \<and>
   (group_matches SuccessMarkers content url \<longrightarrow>
      classify_page content url title ct = (group_outcome SuccessMarkers ct, [])) \<and>
   (\<not> group_matches SuccessMarkers content url \<and> group_matches AlreadySubmitted content url \<longrightarrow>
      classify_page content url title ct = (group_outcome AlreadySubmitted ct, [])) \<and>
   (\<not> group_matches SuccessMarkers content url \<and> \<not> group_matches AlreadySubmitted content url \<and>
    group_matches InvalidCredential content url \<longrightarrow>
      classify_page content url title ct = (group_outcome InvalidCredential ct, [])) \<and>
   (\<not> group_matches SuccessMarkers content url \<and> \<not> group_matches AlreadySubmitted content url \<and>
    \<not> group_matches InvalidCredential content url \<and> group_matches TooEarly content url \<longrightarrow>
      classify_page content url title ct = (group_outcome TooEarly ct, [])) \<and>
   (\<not> group_matches SuccessMarkers content url \<and> \<not> group_matches AlreadySubmitted content url \<and>
    \<not> group_matches InvalidCredential content url \<and> \<not> group_matches TooEarly content url \<and>
    group_matches LocationProblem content url \<longrightarrow>
      classify_page content url title ct = (group_outcome LocationProblem ct, [])) \<and>
   ((\<forall>g \<in> set priority_order. \<not> group_matches g content url) \<longrightarrow>
      classify_page content url title ct =
        (\<lparr>success = False, message = ''Response tidak dikenali: '' @ title, checkinTime = None\<rparr>,
         [''unknown_result'']))"
proof -
  have "(\<forall>g \<in> set priority_order. \<not> group_matches g content url) \<longrightarrow>
      classify_page content url title ct = (unrecognized title, [''unknown_result''])"
    by (simp add: priority_order_def classify_page_groups del: group_matches.simps)
  then show ?thesis
    by (simp add: classify_page_groups first_match_outcome_groups unrecognized_def
        del: group_matches.simps group_outcome.simps)
qed


lemma group_matches_text:
  "group_matches g content url =
     (text_group_matches g content \<or>
      g = SuccessMarkers \<and> (str_includes url ''/home'' \<or> str_includes url ''/dashboard''))"
  by (cases g) simp_all

lemma first_match_without_address:
  assumes "\<not> str_includes url ''/home''" "\<not> str_includes url ''/dashboard''"
  shows "first_match_outcome content url title ct = text_first_match_outcome content title ct"
proof -
  have "(\<lambda>g. group_matches g content url) = (\<lambda>g. text_group_matches g content)"
    using assms by (simp only: group_matches_text) simp
  then show ?thesis
    by (simp only: first_match_outcome_def text_first_match_outcome_def)
qed

lemma address_marker_success:
  assumes "str_includes url ''/home'' \<or> str_includes url ''/dashboard''"
  shows "classify_page content url title ct = (group_outcome SuccessMarkers ct, [])"
proof -
  from assms have "group_matches SuccessMarkers content url"
    by (simp only: group_matches_text) simp
  then show ?thesis by (simp only: classify_page_groups if_True)
qed

text \<open>
  Claim C1 as the specification states it classifies by the text of the page alone. The
  success test also looks at the address of the page: a page whose text holds only the
  invalid-credential marker, served under an address that ends in \<open>/home\<close>, is classified
  as a success, while the first matching group of the text is the invalid-credential group.
\<close>

theorem classify_page_address_counterexample:
  "classify_page ''<p>NIP atau Password salah</p>'' ''https://skemaraja.kemenhub.go.id/home''
      ''SKEMA RAJA'' None =
     (\<lparr>success = True, message = ''Check-in berhasil!'', checkinTime = None\<rparr>, []) \<and>
   text_first_match_outcome ''<p>NIP atau Password salah</p>'' ''SKEMA RAJA'' None =
     \<lparr>success = False, message = ''NIP atau Password salah'', checkinTime = None\<rparr>"
proof -
  have "classify_page ''<p>NIP atau Password salah</p>'' ''https://skemaraja.kemenhub.go.id/home''
      ''SKEMA RAJA'' None = (group_outcome SuccessMarkers None, [])"
    by (rule address_marker_success) simp
  moreover have "text_first_match_outcome ''<p>NIP atau Password salah</p>'' ''SKEMA RAJA'' None =
     \<lparr>success = False, message = ''NIP atau Password salah'', checkinTime = None\<rparr>"
    by (simp add: text_first_match_outcome_def priority_order_def)
  ultimately show ?thesis by (simp add: with_time_def)
qed

text \<open>
  Claim C1, amended. The classifier is a function of the page (content, address, title)
  and the extracted time, and it returns the outcome of the first group that matches, in
  the order success, already submitted, invalid credential, too early, location problem,
  where the success group is matched by one of its markers in the content or by an address
  that contains \<open>/home\<close> or \<open>/dashboard\<close>. A page that matches no group gives the
  unrecognized outcome, which carries the page title (and a screenshot is taken). For a
  page whose address contains neither of the two address markers the outcome is that of the
  first keyword group that matches the text of the page; a page whose address contains one
  of them is a success whatever its text.
\<close>

theorem classify_page_first_match:
  "fst (classify_page content url title ct) = first_match_outcome content url title ct \<and>
   (group_matches SuccessMarkers content url \<longrightarrow>
      classify_page content url title ct = (group_outcome SuccessMarkers ct, [])) \<and>
   (\<not> group_matches SuccessMarkers content url \<and> group_matches AlreadySubmitted content url \<longrightarrow>
      classify_page content url title ct = (group_outcome AlreadySubmitted ct, [])) \<and>
   (\<not> group_matches SuccessMarkers content url \<and> \<not> group_matches AlreadySubmitted content url \<and>
    group_matches InvalidCredential content url \<longrightarrow>
      classify_page content url title ct = (group_outcome InvalidCredential ct, [])) \<and>
   (\<not> group_matches SuccessMarkers content url \<and> \<not> group_matches AlreadySubmitted content url \<and>
    \<not> group_matches InvalidCredential content url \<and> group_matches TooEarly content url \<longrightarrow>
      classify_page content url title ct = (group_outcome TooEarly ct, [])) \<and>
   (\<not> group_matches SuccessMarkers content url \<and> \<not> group_matches AlreadySubmitted content url \<and>
    \<not> group_matches InvalidCredential content url \<and> \<not> group_matches TooEarly content url \<and>
    group_matches LocationProblem content url \<longrightarrow>
      classify_page content url title ct = (group_outcome LocationProblem ct, [])) \<and>
   ((\<forall>g \<in> set priority_order. \<not> group_matches g content url) \<longrightarrow>
      classify_page content url title ct =
        (\<lparr>success = False, message = ''Response tidak dikenali: '' @ title, checkinTime = None\<rparr>,
         [''unknown_result''])) \<and>
   (\<forall>g. group_matches g content url =
      (text_group_matches g content \<or>
       g = SuccessMarkers \<and> (str_includes url ''/home'' \<or> str_includes url ''/dashboard''))) \<and>
   (\<not> str_includes url ''/home'' \<and> \<not> str_includes url ''/dashboard'' \<longrightarrow>
      fst (classify_page content url title ct) = text_first_match_outcome content title ct) \<and>
   (str_includes url ''/home'' \<or> str_includes url ''/dashboard'' \<longrightarrow>
      classify_page content url title ct = (group_outcome SuccessMarkers ct, []))"
proof -
  have "\<not> str_includes url ''/home'' \<and> \<not> str_includes url ''/dashboard'' \<longrightarrow>
      fst (classify_page content url title ct) = text_first_match_outcome content title ct"
    using classify_page_code_groups [of content url title ct]
      first_match_without_address [of url content title ct]
    by metis
  with classify_page_code_groups [of content url title ct]
    group_matches_text [of _ content url] address_marker_success [of url content title ct]
  show ?thesis by blast
qed

theorem classify_page_first_match_witness:
  "classify_page ''<p>NIP salah, belum berhasil</p>'' ''https://skemaraja.kemenhub.go.id/''
      ''SKEMA RAJA'' (Some ''07:01:02'') =
     (\<lparr>success = True, message = ''Check-in berhasil! (07:01:02)'',
       checkinTime = Some ''07:01:02''\<rparr>, []) \<and>
   classify_page ''<p>belum waktunya, lokasi tidak valid</p>'' ''https://skemaraja.kemenhub.go.id/''
      ''SKEMA RAJA'' None =
     (\<lparr>success = False, message = ''Belum waktunya check-in'', checkinTime = None\<rparr>, []) \<and>
   classify_page ''<p>Halo</p>'' ''https://skemaraja.kemenhub.go.id/'' ''Login'' None =
     (\<lparr>success = False, message = ''Response tidak dikenali: Login'', checkinTime = None\<rparr>,
      [''unknown_result''])"
proof -
  let ?u = "''https://skemaraja.kemenhub.go.id/''"
  have 1: "group_matches SuccessMarkers ''<p>NIP salah, belum berhasil</p>'' ?u"
    by simp
  have 2: "\<not> group_matches SuccessMarkers ''<p>belum waktunya, lokasi tidak valid</p>'' ?u \<and>
      \<not> group_matches AlreadySubmitted ''<p>belum waktunya, lokasi tidak valid</p>'' ?u \<and>
      \<not> group_matches InvalidCredential ''<p>belum waktunya, lokasi tidak valid</p>'' ?u \<and>
      group_matches TooEarly ''<p>belum waktunya, lokasi tidak valid</p>'' ?u"
    by simp
  have 3: "\<forall>g \<in> set priority_order. \<not> group_matches g ''<p>Halo</p>'' ?u"
    by (simp add: priority_order_def)
  from classify_page_first_match [of "''<p>NIP salah, belum berhasil</p>''" ?u "''SKEMA RAJA''"
      "Some ''07:01:02''"] 1
  have "classify_page ''<p>NIP salah, belum berhasil</p>'' ?u ''SKEMA RAJA'' (Some ''07:01:02'') =
      (group_outcome SuccessMarkers (Some ''07:01:02''), [])"
    by blast
  moreover
  from classify_page_first_match [of "''<p>belum waktunya, lokasi tidak valid</p>''" ?u
      "''SKEMA RAJA''" None] 2
  have "classify_page ''<p>belum waktunya, lokasi tidak valid</p>'' ?u ''SKEMA RAJA'' None =
      (group_outcome TooEarly None, [])"
    by blast
  moreover
  from classify_page_first_match [of "''<p>Halo</p>''" ?u "''Login''" None] 3
  have "classify_page ''<p>Halo</p>'' ?u ''Login'' None =
      (\<lparr>success = False, message = ''Response tidak dikenali: '' @ ''Login'', checkinTime = None\<rparr>,
       [''unknown_result''])"
    by blast
  ultimately show ?thesis
    by (simp add: with_time_def)
qed


section \<open>Navigation properties\<close>

lemma navigate_cases:
  "navigate goto =
     (case goto 0 of
        None \<Rightarrow> (Inr (), [Goto])
      | Some e0 \<Rightarrow>
          (case goto 1 of
             None \<Rightarrow> (Inr (), [Goto, RetryWarning 2, Pause 5000, Goto])
           | Some e1 \<Rightarrow>
               (case goto 2 of
                  None \<Rightarrow>
                    (Inr (), [Goto, RetryWarning 2, Pause 5000, Goto, RetryWarning 1, Pause 5000, Goto])
                | Some e2 \<Rightarrow>
                    (Inl e2, [Goto, RetryWarning 2, Pause 5000, Goto, RetryWarning 1, Pause 5000, Goto]))))"
  by (simp add: navigate_def numeral_3_eq_3 numeral_2_eq_2 split: option.split)

lemma performCheckin_nav_failure:
  assumes "goto_result env 0 = Some e0" "goto_result env 1 = Some e1" "goto_result env 2 = Some e2"
  shows "performCheckin env now =
     (Inl e2, [Goto, RetryWarning 2, Pause 5000, Goto, RetryWarning 1, Pause 5000, Goto,
               Screenshot ''error'', CloseBrowser])"
  using assms by (simp add: performCheckin_def navigate_cases)

text \<open>
  Claim C4 as the specification states it allows three retries, that is four calls of
  \<^verbatim>\<open>page.goto\<close>. Take a site whose first three loads fail and whose fourth load
  would succeed: the third retry is never made, the run stops after the third call (two
  retries, two pauses) and throws.
\<close>

theorem navigate_fourth_attempt_counterexample:
  "navigate [0 \<mapsto> ''net::ERR_TIMED_OUT'', 1 \<mapsto> ''net::ERR_TIMED_OUT'', 2 \<mapsto> ''net::ERR_TIMED_OUT''] =
     (Inl ''net::ERR_TIMED_OUT'',
      [Goto, RetryWarning 2, Pause 5000, Goto, RetryWarning 1, Pause 5000, Goto])"
  by (simp add: navigate_cases)

text \<open>
  Claim C4, amended. The page is loaded with at most three calls of \<^verbatim>\<open>page.goto\<close>
  in all, the first attempt and up to two retries, and a pause of 5000 ms stands before each
  retry. When the third call fails too, \<open>performCheckin\<close> throws the navigation error of
  that call to its caller, after the screenshot \<open>error\<close> and the closing of the browser.
\<close>

theorem navigate_three_attempts:
  "navigate goto =
     (case goto 0 of
        None \<Rightarrow> (Inr (), [Goto])
      | Some e0 \<Rightarrow>
          (case goto 1 of
             None \<Rightarrow> (Inr (), [Goto, RetryWarning 2, Pause 5000, Goto])
           | Some e1 \<Rightarrow>
               (case goto 2 of
                  None \<Rightarrow>
                    (Inr (), [Goto, RetryWarning 2, Pause 5000, Goto, RetryWarning 1, Pause 5000, Goto])
                | Some e2 \<Rightarrow>
                    (Inl e2, [Goto, RetryWarning 2, Pause 5000, Goto, RetryWarning 1, Pause 5000, Goto])))) \<and>
   (goto_result env 0 = Some e0 \<and> goto_result env 1 = Some e1 \<and> goto_result env 2 = Some e2 \<longrightarrow>
      performCheckin env now =
        (Inl e2, [Goto, RetryWarning 2, Pause 5000, Goto, RetryWarning 1, Pause 5000, Goto,
                  Screenshot ''error'', CloseBrowser]))"
  using navigate_cases [of goto] performCheckin_nav_failure [of env e0 e1 e2 now]
  by blast

theorem navigate_three_attempts_witness:
  "performCheckin
     \<lparr>goto_result = [0 \<mapsto> ''net::ERR_NAME_NOT_RESOLVED'', 1 \<mapsto> ''net::ERR_TIMED_OUT'',
                     2 \<mapsto> ''net::ERR_CONNECTION_RESET''],
      form_found = True, interaction_error = None, page_content = ''Berhasil'',
      page_title = ''SKEMA RAJA'', page_url = ''https://skemaraja.kemenhub.go.id/'',
      table_eval = Inl ''none''\<rparr>
     \<lparr>date_en_CA = ''2025-11-03'', week_day = 1, hours = 7, minutes = 5,
      time_id_ID = ''07.05.09''\<rparr> =
     (Inl ''net::ERR_CONNECTION_RESET'',
      [Goto, RetryWarning 2, Pause 5000, Goto, RetryWarning 1, Pause 5000, Goto,
       Screenshot ''error'', CloseBrowser]) \<and>
   navigate [0 \<mapsto> ''net::ERR_TIMED_OUT''] = (Inr (), [Goto, RetryWarning 2, Pause 5000, Goto])"
proof -
  let ?env = "\<lparr>goto_result = [0 \<mapsto> ''net::ERR_NAME_NOT_RESOLVED'', 1 \<mapsto> ''net::ERR_TIMED_OUT'',
                     2 \<mapsto> ''net::ERR_CONNECTION_RESET''],
      form_found = True, interaction_error = None, page_content = ''Berhasil'',
      page_title = ''SKEMA RAJA'', page_url = ''https://skemaraja.kemenhub.go.id/'',
      table_eval = Inl ''none''\<rparr>"
  have "goto_result ?env 0 = Some ''net::ERR_NAME_NOT_RESOLVED'' \<and>
        goto_result ?env 1 = Some ''net::ERR_TIMED_OUT'' \<and>
        goto_result ?env 2 = Some ''net::ERR_CONNECTION_RESET''"
    by simp
  with navigate_three_attempts [of "[0 \<mapsto> ''net::ERR_TIMED_OUT'']" ?env]
  show ?thesis by simp
qed


section \<open>Check-in time properties\<close>

lemma not_digit_colon: "\<not> is_digit (CHR '':'')"
  by (simp add: is_digit_def)

lemma match_here_sound: "match_here s = Some t \<Longrightarrow> clock_pattern t \<and> prefix t s"
  by (auto simp: match_here_def not_digit_colon prefix_def
      split: option.splits if_splits elim!: eat_digit.elims minutes_seconds.elims)


lemma time_match_sound: "time_match s = Some t \<Longrightarrow> clock_pattern t \<and> sublist t s"
proof (induction s)
  case Nil
  then show ?case by (simp add: match_here_def)
next
  case (Cons c s)
  show ?case
  proof (cases "match_here (c # s)")
    case None
    with Cons.prems have "time_match s = Some t" by simp
    with Cons.IH show ?thesis by (auto simp: sublist_Cons_right)
  next
    case (Some u)
    with Cons.prems have "u = t" by simp
    with Some match_here_sound [of "c # s" t] show ?thesis
      by (auto simp: sublist_Cons_right)
  qed
qed

lemma match_here_complete: "clock_pattern t \<Longrightarrow> match_here (t @ r) \<noteq> None"
  by (induction t rule: clock_pattern.induct)
    (auto simp: match_here_def not_digit_colon split: option.splits)

lemma time_match_append: "clock_pattern t \<Longrightarrow> time_match (a @ t @ r) \<noteq> None"
proof (induction a)
  case Nil
  with match_here_complete [of t r] show ?case
    by (cases "t @ r") (auto split: option.splits)
next
  case (Cons c a)
  then show ?case by (auto split: option.splits)
qed

lemma time_match_complete: "clock_pattern t \<Longrightarrow> sublist t s \<Longrightarrow> time_match s \<noteq> None"
  using time_match_append [of t] by (fastforce simp: sublist_def)

lemma sublist_trim: "sublist (trim s) s"
proof -
  have "prefix (rev (dropWhile is_space (rev (dropWhile is_space s)))) (dropWhile is_space s)"
    by (metis suffix_dropWhile suffix_to_prefix rev_rev_ident)
  moreover have "suffix (dropWhile is_space s) s"
    by (rule suffix_dropWhile)
  ultimately show ?thesis
    unfolding trim_def by (meson prefix_imp_sublist suffix_imp_sublist sublist_order.order_trans)
qed

lemma sessionColumn_windows:
  "sessionColumn h = (if h < 12 then 1 else if h \<le> 15 then 2 else 3)"
  by (simp add: sessionColumn_def)


lemma read_checkin_time_cell:
  assumes "results_table doc = Some (row # rest)" "sessionColumn (hours now) < length row"
  shows "read_checkin_time (Inr doc) now = time_match (trim (row ! sessionColumn (hours now)))"
  using assms by (simp add: read_checkin_time_def table_cell_time_def)

lemma read_checkin_time_missing:
  assumes "results_table doc = None \<or> results_table doc = Some [] \<or>
     (\<exists>row rest. results_table doc = Some (row # rest) \<and>
        (length row \<le> sessionColumn (hours now) \<or>
         time_match (trim (row ! sessionColumn (hours now))) = None))"
  shows "read_checkin_time (Inr doc) now = None"
  using assms by (auto simp: read_checkin_time_def table_cell_time_def)

text \<open>
  Claim C5 as the specification states it lets every failure of the extraction fall back to
  the clock. On a page without a results table the extraction fails, and yet the reported
  time is \<^verbatim>\<open>null\<close> and not the time of the clock (here 07:05:09).
\<close>

theorem read_checkin_time_no_table_counterexample:
  "read_checkin_time (Inr \<lparr>absensi_table = None, bordered_table = None\<rparr>)
     \<lparr>date_en_CA = ''2025-11-03'', week_day = 1, hours = 7, minutes = 5,
      time_id_ID = ''07.05.09''\<rparr> = None"
  by (simp add: read_checkin_time_def table_cell_time_def results_table_def)

lemma match_here_exact: "clock_pattern t \<Longrightarrow> match_here (t @ r) = Some t"
  by (induction t rule: clock_pattern.induct)
    (auto simp: match_here_def not_digit_colon split: option.splits)

lemma time_match_leftmost:
  "time_match s = Some t \<Longrightarrow>
   \<exists>a b. s = a @ t @ b \<and> clock_pattern t \<and>
     (\<forall>a' t' b'. s = a' @ t' @ b' \<and> clock_pattern t' \<longrightarrow>
        length a < length a' \<or> (a' = a \<and> t' = t))"
proof (induction s)
  case Nil
  then show ?case by (simp add: match_here_def)
next
  case (Cons c s)
  show ?case
  proof (cases "match_here (c # s)")
    case (Some u)
    with Cons.prems have ut: "u = t" by simp
    from match_here_sound [of "c # s" t] Some ut obtain b where
      b: "c # s = t @ b" and pat: "clock_pattern t"
      by (auto simp: prefix_def)
    have "length [] < length a' \<or> (a' = [] \<and> t' = t)"
      if d: "c # s = a' @ t' @ b'" and p: "clock_pattern t'" for a' t' b'
    proof (cases a')
      case Nil
      with d match_here_exact [OF p, of b'] Some ut show ?thesis by simp
    next
      case (Cons x xs)
      then show ?thesis by simp
    qed
    with b pat show ?thesis
      by (metis append_Nil)
  next
    case None
    with Cons.prems have "time_match s = Some t" by simp
    from Cons.IH [OF this] obtain a b where
      ab: "s = a @ t @ b" and pat: "clock_pattern t" and
      least: "\<And>a' t' b'. s = a' @ t' @ b' \<Longrightarrow> clock_pattern t' \<Longrightarrow>
                length a < length a' \<or> (a' = a \<and> t' = t)"
      by blast
    have "length (c # a) < length a' \<or> (a' = c # a \<and> t' = t)"
      if d: "c # s = a' @ t' @ b'" and p: "clock_pattern t'" for a' t' b'
    proof (cases a')
      case Nil
      with d match_here_exact [OF p, of b'] None show ?thesis by simp
    next
      case (Cons x xs)
      with d have "x = c" "s = xs @ t' @ b'" by simp_all
      with least [of xs t' b'] p Cons show ?thesis by auto
    qed
    moreover from ab have "c # s = (c # a) @ t @ b" by simp
    ultimately show ?thesis using pat by blast
  qed
qed

lemma performCheckin_result:
  assumes "goto_result env 0 = None" "form_found env" "interaction_error env = None"
  shows "fst (performCheckin env now) =
     Inr (fst (classify_page (page_content env) (page_url env) (page_title env)
                 (read_checkin_time (table_eval env) now)))"
  using assms by (simp add: performCheckin_def navigate_cases Let_def split: prod.splits)

lemma classify_page_without_time:
  "checkinTime (fst (classify_page content url title None)) = None \<and>
   message (fst (classify_page content url title None)) \<in>
     set [''Check-in berhasil!'', ''Sudah check-in sebelumnya'', ''NIP atau Password salah'',
          ''Belum waktunya check-in'', ''Masalah lokasi/koordinat'',
          ''Response tidak dikenali: '' @ title]"
  by (simp add: classify_page_groups with_time_def unrecognized_def del: group_matches.simps)

text \<open>
  Claim C5, amended. The column of the first data row is picked by the hour: column 1
  before hour 12, column 2 for the hours 12 to 15, column 3 from hour 16 on. When the table,
  its first row and that cell are there, the reported time is the leftmost match of the
  clock pattern in the trimmed text of the cell: a text of the form H:MM:SS or HH:MM:SS
  that occurs in the cell, with no such text starting further left and no other such text
  starting at the same place; it is found whenever the trimmed text holds such a text. The
  current time of the clock (dots replaced by colons) is reported only when the evaluation
  in the page throws; when the table, the row, the cell or the pattern is missing, no time
  is reported. The time found is what the classifier gets, and without a time the outcome
  has no time and its message is one of the messages without a time in brackets.
\<close>

theorem read_checkin_time_spec:
  "sessionColumn h = (if h < 12 then 1 else if h \<le> 15 then 2 else 3) \<and>
   (results_table doc = Some (row # rest) \<and> sessionColumn (hours now) < length row \<longrightarrow>
      read_checkin_time (Inr doc) now = time_match (trim (row ! sessionColumn (hours now)))) \<and>
   (time_match (trim cell) = Some t \<longrightarrow>
      clock_pattern t \<and> sublist t cell \<and>
      (\<exists>a b. trim cell = a @ t @ b \<and>
         (\<forall>a' t' b'. trim cell = a' @ t' @ b' \<and> clock_pattern t' \<longrightarrow>
            length a < length a' \<or> (a' = a \<and> t' = t)))) \<and>
   (clock_pattern t \<and> sublist t (trim cell) \<longrightarrow> time_match (trim cell) \<noteq> None) \<and>
   (results_table doc = None \<or> results_table doc = Some [] \<or>
     (\<exists>row rest. results_table doc = Some (row # rest) \<and>
        (length row \<le> sessionColumn (hours now) \<or>
         time_match (trim (row ! sessionColumn (hours now))) = None)) \<longrightarrow>
      read_checkin_time (Inr doc) now = None) \<and>
   read_checkin_time (Inl e) now =
     Some (map (\<lambda>c. if c = CHR ''.'' then CHR '':'' else c) (time_id_ID now)) \<and>
   (goto_result env 0 = None \<and> form_found env \<and> interaction_error env = None \<longrightarrow>
      fst (performCheckin env now) =
        Inr (fst (classify_page (page_content env) (page_url env) (page_title env)
                    (read_checkin_time (table_eval env) now)))) \<and>
   checkinTime (fst (classify_page content url title None)) = None \<and>
   message (fst (classify_page content url title None)) \<in>
     set [''Check-in berhasil!'', ''Sudah check-in sebelumnya'', ''NIP atau Password salah'',
          ''Belum waktunya check-in'', ''Masalah lokasi/koordinat'',
          ''Response tidak dikenali: '' @ title]"
proof -
  have "time_match (trim cell) = Some t \<longrightarrow>
      clock_pattern t \<and> sublist t cell \<and>
      (\<exists>a b. trim cell = a @ t @ b \<and>
         (\<forall>a' t' b'. trim cell = a' @ t' @ b' \<and> clock_pattern t' \<longrightarrow>
            length a < length a' \<or> (a' = a \<and> t' = t)))"
  proof
    assume m: "time_match (trim cell) = Some t"
    from time_match_sound [OF m] sublist_trim [of cell]
    have "clock_pattern t" "sublist t cell"
      by (auto intro: sublist_order.order_trans)
    moreover from time_match_leftmost [OF m]
    have "\<exists>a b. trim cell = a @ t @ b \<and>
         (\<forall>a' t' b'. trim cell = a' @ t' @ b' \<and> clock_pattern t' \<longrightarrow>
            length a < length a' \<or> (a' = a \<and> t' = t))"
      by blast
    ultimately show "clock_pattern t \<and> sublist t cell \<and>
      (\<exists>a b. trim cell = a @ t @ b \<and>
         (\<forall>a' t' b'. trim cell = a' @ t' @ b' \<and> clock_pattern t' \<longrightarrow>
            length a < length a' \<or> (a' = a \<and> t' = t)))"
      by blast
  qed
  moreover have "read_checkin_time (Inl e) now =
     Some (map (\<lambda>c. if c = CHR ''.'' then CHR '':'' else c) (time_id_ID now))"
    by (simp add: read_checkin_time_def)
  moreover note sessionColumn_windows [of h] read_checkin_time_cell [of doc row rest now]
    read_checkin_time_missing [of doc now] time_match_complete [of t "trim cell"]
    performCheckin_result [of env now] classify_page_without_time [of content url title]
  ultimately show ?thesis by blast
qed

theorem read_checkin_time_spec_witness:
  "read_checkin_time
     (Inr \<lparr>absensi_table = Some [[''07-Jan-2026'', '' 07-Jan-2026 07:02:11 '', ''-'', ''-'']],
           bordered_table = None\<rparr>)
     \<lparr>date_en_CA = ''2026-01-07'', week_day = 3, hours = 7, minutes = 5,
      time_id_ID = ''07.05.09''\<rparr> = Some ''07:02:11'' \<and>
   read_checkin_time
     (Inr \<lparr>absensi_table = Some [[''07-Jan-2026'', ''07-Jan-2026 07:02:11'', ''-'', ''-'']],
           bordered_table = None\<rparr>)
     \<lparr>date_en_CA = ''2026-01-07'', week_day = 3, hours = 12, minutes = 5,
      time_id_ID = ''12.05.09''\<rparr> = None \<and>
   read_checkin_time (Inl ''Execution context was destroyed'')
     \<lparr>date_en_CA = ''2026-01-07'', week_day = 3, hours = 7, minutes = 5,
      time_id_ID = ''07.05.09''\<rparr> = Some ''07:05:09''"
proof -
  let ?row = "[''07-Jan-2026'', '' 07-Jan-2026 07:02:11 '', ''-'', ''-'']"
  let ?row2 = "[''07-Jan-2026'', ''07-Jan-2026 07:02:11'', ''-'', ''-'']"
  let ?doc = "\<lparr>absensi_table = Some [?row], bordered_table = None\<rparr>"
  let ?doc2 = "\<lparr>absensi_table = Some [?row2], bordered_table = None\<rparr>"
  let ?am = "\<lparr>date_en_CA = ''2026-01-07'', week_day = 3, hours = 7, minutes = 5,
      time_id_ID = ''07.05.09''\<rparr>"
  let ?noon = "\<lparr>date_en_CA = ''2026-01-07'', week_day = 3, hours = 12, minutes = 5,
      time_id_ID = ''12.05.09''\<rparr>"
  have col: "sessionColumn 7 = 1" "sessionColumn 12 = 2"
    by (simp_all add: sessionColumn_def)
  have "results_table ?doc = Some (?row # []) \<and> sessionColumn (hours ?am) < length ?row"
    by (simp add: results_table_def col)
  with read_checkin_time_spec [of 7 ?doc ?row "[]" ?am]
  have "read_checkin_time (Inr ?doc) ?am = time_match (trim (?row ! sessionColumn (hours ?am)))"
    by blast
  moreover have "time_match (trim (?row ! sessionColumn (hours ?am))) = Some ''07:02:11''"
    by (simp add: col trim_def is_space_def match_here_def is_digit_def)
  moreover have "time_match (trim (?row2 ! sessionColumn (hours ?noon))) = None"
    by (simp add: col trim_def is_space_def match_here_def is_digit_def)
  then have "\<exists>row rest. results_table ?doc2 = Some (row # rest) \<and>
        (length row \<le> sessionColumn (hours ?noon) \<or>
         time_match (trim (row ! sessionColumn (hours ?noon))) = None)"
    by (simp add: results_table_def)
  with read_checkin_time_spec [of 12 ?doc2 _ _ ?noon]
  have "read_checkin_time (Inr ?doc2) ?noon = None"
    by blast
  moreover from read_checkin_time_spec [of 7 _ _ _ ?am _ _ "''Execution context was destroyed''"]
  have "read_checkin_time (Inl ''Execution context was destroyed'') ?am =
     Some (map (\<lambda>c. if c = CHR ''.'' then CHR '':'' else c) (time_id_ID ?am))"
    by blast
  ultimately show ?thesis by simp
qed


section \<open>Notification properties\<close>

lemma send_missing:
  "\<not> truthy (n_user a ''phone'') \<or> \<not> truthy (n_fonnteToken a) \<Longrightarrow>
   sendWhatsAppNotification a t gw = (Inr (), [])"
  by (auto simp: sendWhatsAppNotification_def)

lemma send_events:
  assumes "n_user a ''phone'' = Some (JStr p)" "p \<noteq> []" "truthy (n_fonnteToken a)"
  shows "\<exists>m line. sendWhatsAppNotification a t gw =
           (Inr (), [HttpPost (filter is_digit p) m, Logged (fst line) (snd line)])"
  using assms
  by (auto simp: sendWhatsAppNotification_def Let_def
      split: gateway_reply.splits sum.splits)

lemma send_network_error:
  assumes "n_user a ''phone'' = Some (JStr p)" "p \<noteq> []" "truthy (n_fonnteToken a)"
    "gw = NetworkError e \<or> gw = BodyNotJson e"
  shows "\<exists>m. sendWhatsAppNotification a t gw =
           (Inr (), [HttpPost (filter is_digit p) m, Logged LError (FonnteError e)])"
  using assms by (auto simp: sendWhatsAppNotification_def Let_def)

lemma js_field_total: "js_field r k = Inr v \<Longrightarrow> \<exists>v'. js_field r k' = Inr v'"
  by (cases r) simp_all

lemma send_not_ok:
  assumes "n_user a ''phone'' = Some (JStr p)" "p \<noteq> []" "truthy (n_fonnteToken a)"
    "gw = Parsed r" "js_field r ''status'' = Inr st" "\<not> truthy st"
  shows "\<exists>m reason. js_field r ''reason'' = Inr reason \<and>
           sendWhatsAppNotification a t gw =
           (Inr (), [HttpPost (filter is_digit p) m,
                     Logged LWarn (WhatsAppFailed (js_or reason (Some (JStr ''Unknown error''))))])"
proof -
  from js_field_total [OF assms(5), of "''reason''"] obtain reason where
    "js_field r ''reason'' = Inr reason" by blast
  with assms show ?thesis
    by (simp add: sendWhatsAppNotification_def Let_def)
qed

lemma send_ok:
  assumes "n_user a ''phone'' = Some (JStr p)" "p \<noteq> []" "truthy (n_fonnteToken a)"
    "gw = Parsed r" "js_field r ''status'' = Inr st" "truthy st"
  shows "\<exists>m. sendWhatsAppNotification a t gw =
           (Inr (), [HttpPost (filter is_digit p) m, Logged LInfo (WhatsAppSent (n_user a ''name''))])"
  using assms by (simp add: sendWhatsAppNotification_def Let_def)

lemma send_returns:
  assumes "\<not> truthy (n_user a ''phone'') \<or> (\<exists>p. n_user a ''phone'' = Some (JStr p))"
  shows "fst (sendWhatsAppNotification a t gw) = Inr () \<and>
         length (filter is_request (snd (sendWhatsAppNotification a t gw))) \<le> 1"
proof (cases "\<not> truthy (n_user a ''phone'') \<or> \<not> truthy (n_fonnteToken a)")
  case True
  then show ?thesis by (simp add: send_missing)
next
  case False
  with assms obtain p where p: "n_user a ''phone'' = Some (JStr p)" "p \<noteq> []"
    by auto
  from False have "truthy (n_fonnteToken a)" by simp
  from send_events [OF p this, of t gw] show ?thesis by auto
qed


lemma send_null_body:
  assumes "n_user a ''phone'' = Some (JStr p)" "p \<noteq> []" "truthy (n_fonnteToken a)"
    "gw = Parsed JNull"
  shows "\<exists>m. sendWhatsAppNotification a t gw =
           (Inr (), [HttpPost (filter is_digit p) m,
                     Logged LError (FonnteError
                       (''Cannot read properties of null (reading '' @ [CHR 0x27] @ ''status'' @
                        [CHR 0x27] @ '')''))])"
  using assms by (simp add: sendWhatsAppNotification_def Let_def)

lemma js_field_not_null: "r \<noteq> JNull \<Longrightarrow> \<exists>v. js_field r k = Inr v"
  by (cases r) simp_all

lemma send_parsed:
  assumes "n_user a ''phone'' = Some (JStr p)" "p \<noteq> []" "truthy (n_fonnteToken a)"
    "gw = Parsed r" "r \<noteq> JNull"
  shows "\<exists>m st reason. js_field r ''status'' = Inr st \<and> js_field r ''reason'' = Inr reason \<and>
           sendWhatsAppNotification a t gw =
           (Inr (), [HttpPost (filter is_digit p) m,
                     if truthy st then Logged LInfo (WhatsAppSent (n_user a ''name''))
                     else Logged LWarn (WhatsAppFailed (js_or reason (Some (JStr ''Unknown error''))))])"
proof -
  from js_field_not_null [OF assms(5), of "''status''"] obtain st where
    st: "js_field r ''status'' = Inr st" by blast
  from js_field_not_null [OF assms(5), of "''reason''"] obtain reason where
    reason: "js_field r ''reason'' = Inr reason" by blast
  from assms(1-4) st reason have "\<exists>m. sendWhatsAppNotification a t gw =
           (Inr (), [HttpPost (filter is_digit p) m,
                     if truthy st then Logged LInfo (WhatsAppSent (n_user a ''name''))
                     else Logged LWarn (WhatsAppFailed (js_or reason (Some (JStr ''Unknown error''))))])"
    by (simp add: sendWhatsAppNotification_def Let_def)
  with st reason show ?thesis by blast
qed

text \<open>
  Claim C7 as the specification states it has a missing phone number logged. A call for a
  user without a phone number returns at once: nothing is logged and the gateway is not
  called.
\<close>

theorem send_missing_phone_counterexample:
  "sendWhatsAppNotification
     \<lparr>n_user = [''nip'' \<mapsto> JStr ''1'', ''name'' \<mapsto> JStr ''Budi''], n_schedule_name = ''Pagi'',
      n_status_wfh = Some (JStr ''2''), n_success = True, n_message = Plain ''Check-in berhasil!'',
      n_fonnteToken = Some (JStr ''device-token''), n_locationName = Some (JStr ''KSOP Gorontalo'')\<rparr>
     ''3/11/2025, 07.05.09'' (Parsed (JObj [(''status'', JBool True)])) = (Inr (), [])"
  by (simp add: sendWhatsAppNotification_def)

text \<open>
  Claim C7, amended. For every call whose phone number is missing (falsy) or a string,
  \<open>sendWhatsAppNotification\<close> returns normally and sends at most one request to the
  gateway, so nothing is retried. With a missing phone number or a missing device token it
  returns at once, silently: no log line and no request. Otherwise it sends one request to
  the digits of the phone number and writes one log line: a network error, a body that is
  not JSON, or a body that is the JSON value null (reading its status throws inside the
  \<^verbatim>\<open>try\<close> block) is logged as an error and swallowed; any other body without a truthy
  status is logged as a warning (with its reason, or \<open>Unknown error\<close>) and swallowed; a
  body with a truthy status is logged as sent.
\<close>

theorem sendWhatsAppNotification_swallows:
  "(\<not> truthy (n_user a ''phone'') \<or> (\<exists>p. n_user a ''phone'' = Some (JStr p)) \<longrightarrow>
      fst (sendWhatsAppNotification a t gw) = Inr () \<and>
      length (filter is_request (snd (sendWhatsAppNotification a t gw))) \<le> 1) \<and>
   (\<not> truthy (n_user a ''phone'') \<or> \<not> truthy (n_fonnteToken a) \<longrightarrow>
      sendWhatsAppNotification a t gw = (Inr (), [])) \<and>
   (n_user a ''phone'' = Some (JStr p) \<and> p \<noteq> [] \<and> truthy (n_fonnteToken a) \<longrightarrow>
      (\<exists>m line. sendWhatsAppNotification a t gw =
         (Inr (), [HttpPost (filter is_digit p) m, Logged (fst line) (snd line)])) \<and>
      (gw = NetworkError e \<or> gw = BodyNotJson e \<longrightarrow>
         (\<exists>m. sendWhatsAppNotification a t gw =
            (Inr (), [HttpPost (filter is_digit p) m, Logged LError (FonnteError e)]))) \<and>
      (gw = Parsed JNull \<longrightarrow>
         (\<exists>m. sendWhatsAppNotification a t gw =
            (Inr (), [HttpPost (filter is_digit p) m,
                      Logged LError (FonnteError
                        (''Cannot read properties of null (reading '' @ [CHR 0x27] @ ''status'' @
                         [CHR 0x27] @ '')''))]))) \<and>
      (gw = Parsed r \<and> r \<noteq> JNull \<longrightarrow>
         (\<exists>m st reason. js_field r ''status'' = Inr st \<and> js_field r ''reason'' = Inr reason \<and>
            sendWhatsAppNotification a t gw =
            (Inr (), [HttpPost (filter is_digit p) m,
                      if truthy st then Logged LInfo (WhatsAppSent (n_user a ''name''))
                      else Logged LWarn
                             (WhatsAppFailed (js_or reason (Some (JStr ''Unknown error''))))]))) \<and>
      (gw = Parsed r \<and> js_field r ''status'' = Inr st \<and> \<not> truthy st \<longrightarrow>
         (\<exists>m reason. js_field r ''reason'' = Inr reason \<and>
            sendWhatsAppNotification a t gw =
            (Inr (), [HttpPost (filter is_digit p) m,
                      Logged LWarn (WhatsAppFailed (js_or reason (Some (JStr ''Unknown error''))))]))) \<and>
      (gw = Parsed r \<and> js_field r ''status'' = Inr st \<and> truthy st \<longrightarrow>
         (\<exists>m. sendWhatsAppNotification a t gw =
            (Inr (), [HttpPost (filter is_digit p) m,
                      Logged LInfo (WhatsAppSent (n_user a ''name''))]))))"
proof (intro conjI impI)
  assume "\<not> truthy (n_user a ''phone'') \<or> (\<exists>p. n_user a ''phone'' = Some (JStr p))"
  from send_returns [OF this, of t gw]
  show "fst (sendWhatsAppNotification a t gw) = Inr ()"
    and "length (filter is_request (snd (sendWhatsAppNotification a t gw))) \<le> 1"
    by simp_all
next
  assume "\<not> truthy (n_user a ''phone'') \<or> \<not> truthy (n_fonnteToken a)"
  then show "sendWhatsAppNotification a t gw = (Inr (), [])"
    by (rule send_missing)
next
  assume "n_user a ''phone'' = Some (JStr p) \<and> p \<noteq> [] \<and> truthy (n_fonnteToken a)"
  then have ph: "n_user a ''phone'' = Some (JStr p)" "p \<noteq> []" "truthy (n_fonnteToken a)"
    by simp_all
  show "\<exists>m line. sendWhatsAppNotification a t gw =
         (Inr (), [HttpPost (filter is_digit p) m, Logged (fst line) (snd line)])"
    by (rule send_events [OF ph])
  {
    assume "gw = NetworkError e \<or> gw = BodyNotJson e"
    then show "\<exists>m. sendWhatsAppNotification a t gw =
            (Inr (), [HttpPost (filter is_digit p) m, Logged LError (FonnteError e)])"
      by (rule send_network_error [OF ph])
  }
  {
    assume "gw = Parsed JNull"
    then show "\<exists>m. sendWhatsAppNotification a t gw =
            (Inr (), [HttpPost (filter is_digit p) m,
                      Logged LError (FonnteError
                        (''Cannot read properties of null (reading '' @ [CHR 0x27] @ ''status'' @
                         [CHR 0x27] @ '')''))])"
      by (rule send_null_body [OF ph])
  }
  {
    assume "gw = Parsed r \<and> r \<noteq> JNull"
    then have "gw = Parsed r" "r \<noteq> JNull" by simp_all
    then show "\<exists>m st reason. js_field r ''status'' = Inr st \<and> js_field r ''reason'' = Inr reason \<and>
            sendWhatsAppNotification a t gw =
            (Inr (), [HttpPost (filter is_digit p) m,
                      if truthy st then Logged LInfo (WhatsAppSent (n_user a ''name''))
                      else Logged LWarn
                             (WhatsAppFailed (js_or reason (Some (JStr ''Unknown error''))))])"
      by (rule send_parsed [OF ph])
  }
  {
    assume "gw = Parsed r \<and> js_field r ''status'' = Inr st \<and> \<not> truthy st"
    then have "gw = Parsed r" "js_field r ''status'' = Inr st" "\<not> truthy st" by simp_all
    then show "\<exists>m reason. js_field r ''reason'' = Inr reason \<and>
            sendWhatsAppNotification a t gw =
            (Inr (), [HttpPost (filter is_digit p) m,
                      Logged LWarn (WhatsAppFailed (js_or reason (Some (JStr ''Unknown error''))))])"
      by (rule send_not_ok [OF ph])
  }
  {
    assume "gw = Parsed r \<and> js_field r ''status'' = Inr st \<and> truthy st"
    then have "gw = Parsed r" "js_field r ''status'' = Inr st" "truthy st" by simp_all
    then show "\<exists>m. sendWhatsAppNotification a t gw =
            (Inr (), [HttpPost (filter is_digit p) m,
                      Logged LInfo (WhatsAppSent (n_user a ''name''))])"
      by (rule send_ok [OF ph])
  }
qed

theorem sendWhatsAppNotification_swallows_witness:
  "sendWhatsAppNotification
     \<lparr>n_user = [''name'' \<mapsto> JStr ''Budi'', ''phone'' \<mapsto> JStr ''0812-3456''], n_schedule_name = ''Pagi'',
      n_status_wfh = Some (JStr ''2''), n_success = False, n_message = Plain ''NIP atau Password salah'',
      n_fonnteToken = Some (JStr ''device-token''), n_locationName = Some (JStr ''KSOP Gorontalo'')\<rparr>
     ''3/11/2025, 07.05.09'' (NetworkError ''fetch failed'') =
     (Inr (),
      [HttpPost ''08123456''
         \<lparr>wa_success = False, wa_nama = Some (JStr ''Budi''), wa_jadwal = ''Pagi'',
          wa_waktu = ''3/11/2025, 07.05.09'', wa_lokasi = Some (JStr ''KSOP Gorontalo''),
          wa_mode = ''WFO'', wa_closing = Some (Plain ''NIP atau Password salah'')\<rparr>,
       Logged LError (FonnteError ''fetch failed'')])"
proof -
  let ?a = "\<lparr>n_user = [''name'' \<mapsto> JStr ''Budi'', ''phone'' \<mapsto> JStr ''0812-3456''], n_schedule_name = ''Pagi'',
      n_status_wfh = Some (JStr ''2''), n_success = False, n_message = Plain ''NIP atau Password salah'',
      n_fonnteToken = Some (JStr ''device-token''), n_locationName = Some (JStr ''KSOP Gorontalo'')\<rparr>"
  have "n_user ?a ''phone'' = Some (JStr ''0812-3456'') \<and> ''0812-3456'' \<noteq> [] \<and>
      truthy (n_fonnteToken ?a)"
    by simp
  with sendWhatsAppNotification_swallows [where a = ?a and p = "''0812-3456''"
      and t = "''3/11/2025, 07.05.09''" and gw = "NetworkError ''fetch failed''"
      and e = "''fetch failed''"]
  obtain m where m: "sendWhatsAppNotification ?a ''3/11/2025, 07.05.09'' (NetworkError ''fetch failed'') =
      (Inr (), [HttpPost (filter is_digit ''0812-3456'') m, Logged LError (FonnteError ''fetch failed'')])"
    by blast
  have "sendWhatsAppNotification ?a ''3/11/2025, 07.05.09'' (NetworkError ''fetch failed'') =
     (Inr (),
      [HttpPost ''08123456''
         \<lparr>wa_success = False, wa_nama = Some (JStr ''Budi''), wa_jadwal = ''Pagi'',
          wa_waktu = ''3/11/2025, 07.05.09'', wa_lokasi = Some (JStr ''KSOP Gorontalo''),
          wa_mode = ''WFO'', wa_closing = Some (Plain ''NIP atau Password salah'')\<rparr>,
       Logged LError (FonnteError ''fetch failed'')])"
    by (simp add: sendWhatsAppNotification_def is_digit_def)
  with m show ?thesis by simp
qed


section \<open>Scheduler and trigger properties\<close>

lemma schedule_ranges:
  "map (\<lambda>s. (sched_name s, startMinute s, endMinute s)) (SCHEDULES config) =
     [(''Pagi'', 0, 60), (''Siang'', 0, 55), (''Sore'', 0, 60)]"
  by (simp add: SCHEDULES_def)

lemma delay_in_range:
  assumes "0 \<le> r" "r < 1" "s \<in> set (SCHEDULES config)"
  shows "real (startMinute s) * 60000 \<le> getRandomDelayInRange s r \<and>
         getRandomDelayInRange s r < real (endMinute s) * 60000"
  using assms by (auto simp: SCHEDULES_def getRandomDelayInRange_def)

lemma cron_callback_events:
  "snd (cron_callback config w s r) =
     [Logged LInfo (CronTriggered (sched_name s)),
      Logged LInfo (RandomDelay (js_round (getRandomDelayInRange s r / 60000))),
      Logged LInfo (ScheduledCheckinAt (getRandomDelayInRange s r))] @
     (if getRandomDelayInRange s r > 0 then [Sleep (getRandomDelayInRange s r)] else []) @
     [Logged LInfo (StartingAfterDelay (sched_name s) (js_round (getRandomDelayInRange s r / 60000)))] @
     snd (runCheckin config w (sched_name s))"
  by (simp add: cron_callback_def Let_def split: prod.splits)

lemma runCheckin_skips:
  assumes "\<not> isWorkingDay (run_clock w)"
  shows "runCheckin config w name =
     (Inr None,
      [Logged LInfo (StartingCheckin name),
       Logged LInfo (if isWeekend (run_clock w) then SkippingWeekend else SkippingHoliday)])"
  using assms by (auto simp: runCheckin_def isWorkingDay_def Let_def)

lemma runCheckin_loads:
  assumes "isWorkingDay (run_clock w)"
  shows "\<exists>rest. snd (runCheckin config w name) =
     Logged LInfo (StartingCheckin name) # snd (getUsers config w) @ rest"
  using assms
  by (auto simp: runCheckin_def isWorkingDay_def Let_def split: prod.splits sum.splits)


lemma session_nips_append: "session_nips (xs @ ys) = session_nips xs @ session_nips ys"
  by (induction xs rule: session_nips.induct) simp_all

lemma send_no_sessions: "session_nips (snd (sendWhatsAppNotification a t gw)) = []"
  by (simp add: sendWhatsAppNotification_def Let_def
      split: option.splits jval.splits gateway_reply.splits sum.splits)

lemma server_user_sessions:
  "session_nips (server_user config w schedule i n user) = [user ''nip'']"
proof -
  obtain outcome browser where pc:
    "performCheckin (session_of w user) (session_clock w user) = (outcome, browser)"
    by (cases "performCheckin (session_of w user) (session_clock w user)")
  show ?thesis
  proof (cases outcome)
    case (Inl e)
    with pc show ?thesis
      by (simp add: server_user_def Let_def session_nips_append)
  next
    case (Inr result)
    let ?send = "sendWhatsAppNotification
                   \<lparr>n_user = user, n_schedule_name = schedule,
                    n_status_wfh = config ''status'',
                    n_success = success result,
                    n_message =
                      DashboardNotice (success result)
                        (js_or (user ''name'') (Some (JStr ''Bapak/Ibu'')))
                        (log_message result schedule) (config ''locationName''),
                    n_fonnteToken = config ''fonnteToken'',
                    n_locationName = config ''locationName''\<rparr>
                   (notify_time w user) (gateway_of w user)"
    obtain thrown sent where sd: "?send = (thrown, sent)"
      by (cases ?send)
    from send_no_sessions [of _ "notify_time w user" "gateway_of w user"] sd
    have "session_nips sent = []"
      by (metis snd_conv)
    with pc Inr sd show ?thesis
      by (cases thrown) (simp_all add: server_user_def Let_def session_nips_append)
  qed
qed

lemma server_users_sessions:
  "session_nips (server_users config w schedule i n users) = map (\<lambda>u. u ''nip'') users"
  by (induction users arbitrary: i) (simp_all add: session_nips_append server_user_sessions)

lemma post_trigger_runs:
  assumes "filter (\<lambda>u. truthy (u ''enabled'') \<and> truthy (u ''nip'') \<and> truthy (u ''password''))
             (loadUsers roster_file) \<noteq> []"
  shows "reply_success (fst (post_trigger w config_file roster_file)) \<and>
         session_nips (snd (post_trigger w config_file roster_file)) =
           map (\<lambda>u. u ''nip'')
             (filter (\<lambda>u. truthy (u ''enabled'') \<and> truthy (u ''nip'') \<and> truthy (u ''password''))
                (loadUsers roster_file))"
  using assms
  by (simp add: post_trigger_def Let_def server_runCheckin_def session_nips_append
      server_users_sessions)

lemma server_user_clock:
  "server_user config (w\<lparr>run_clock := c\<rparr>) schedule i n user = server_user config w schedule i n user"
proof -
  have same:
    "pre_delay_draw (w\<lparr>run_clock := c\<rparr>) = pre_delay_draw w"
    "inter_delay_draw (w\<lparr>run_clock := c\<rparr>) = inter_delay_draw w"
    "session_of (w\<lparr>run_clock := c\<rparr>) = session_of w"
    "session_clock (w\<lparr>run_clock := c\<rparr>) = session_clock w"
    "notify_time (w\<lparr>run_clock := c\<rparr>) = notify_time w"
    "gateway_of (w\<lparr>run_clock := c\<rparr>) = gateway_of w"
    by simp_all
  show ?thesis
    unfolding server_user_def same by (rule refl)
qed

lemma server_users_clock:
  "server_users config (w\<lparr>run_clock := c\<rparr>) schedule i n users =
   server_users config w schedule i n users"
  by (induction users arbitrary: i) (simp_all add: server_user_clock)

lemma post_trigger_any_day:
  assumes "hours c = hours c'" "minutes c = minutes c'"
  shows "post_trigger (w\<lparr>run_clock := c\<rparr>) config_file roster_file =
         post_trigger (w\<lparr>run_clock := c'\<rparr>) config_file roster_file"
  using assms
  by (simp add: post_trigger_def Let_def server_runCheckin_def server_users_clock
      getScheduleName_def)


lemma cli_run_skips:
  assumes "\<not> isWorkingDay (run_clock w)"
  shows "\<exists>name. cli_run config w flag =
     (Inr None,
      (if flag = FlagManual then [Logged LInfo ManualTriggered] else []) @
      [Logged LInfo (StartingCheckin name),
       Logged LInfo (if isWeekend (run_clock w) then SkippingWeekend else SkippingHoliday)])"
  using runCheckin_skips [OF assms] by (cases flag) simp_all

lemma cron_callback_skips:
  assumes "\<not> isWorkingDay (run_clock w)"
  shows "snd (cron_callback config w s r) =
     [Logged LInfo (CronTriggered (sched_name s)),
      Logged LInfo (RandomDelay (js_round (getRandomDelayInRange s r / 60000))),
      Logged LInfo (ScheduledCheckinAt (getRandomDelayInRange s r))] @
     (if getRandomDelayInRange s r > 0 then [Sleep (getRandomDelayInRange s r)] else []) @
     [Logged LInfo (StartingAfterDelay (sched_name s) (js_round (getRandomDelayInRange s r / 60000))),
      Logged LInfo (StartingCheckin (sched_name s)),
      Logged LInfo (if isWeekend (run_clock w) then SkippingWeekend else SkippingHoliday)]"
  by (simp add: cron_callback_events runCheckin_skips [OF assms])

text \<open>
  Claim C9 as the specification states it gives each of the three windows a range of its
  own. The ranges of Pagi and Sore are the same, 0 to 60 minutes.
\<close>

theorem schedule_ranges_counterexample:
  "sched_name (SCHEDULES config_defaults ! 0) = ''Pagi'' \<and>
   sched_name (SCHEDULES config_defaults ! 2) = ''Sore'' \<and>
   startMinute (SCHEDULES config_defaults ! 0) = startMinute (SCHEDULES config_defaults ! 2) \<and>
   endMinute (SCHEDULES config_defaults ! 0) = endMinute (SCHEDULES config_defaults ! 2) \<and>
   getRandomDelayInRange (SCHEDULES config_defaults ! 0) (1 / 2) =
     getRandomDelayInRange (SCHEDULES config_defaults ! 2) (1 / 2)"
  by (simp add: SCHEDULES_def getRandomDelayInRange_def)

text \<open>
  Claim C9, amended. On each cron trigger one random delay is computed, from one random
  number, and it is waited (when it is above 0) before \<open>runCheckin\<close> starts, hence before
  the guards, the loading of the roster and every browser session. For a random number from
  0 up to but not including 1 the delay lies in the range of the window, from its start
  minute up to but not including its end minute: 0 to 60 minutes for Pagi, 0 to 55 minutes
  for Siang, 0 to 60 minutes for Sore. The ranges of Pagi and Sore are equal.
\<close>

theorem cron_delay_before_run:
  "(0 \<le> r \<and> r < 1 \<and> s \<in> set (SCHEDULES config) \<longrightarrow>
      real (startMinute s) * 60000 \<le> getRandomDelayInRange s r \<and>
      getRandomDelayInRange s r < real (endMinute s) * 60000) \<and>
   map (\<lambda>s. (sched_name s, startMinute s, endMinute s)) (SCHEDULES config) =
     [(''Pagi'', 0, 60), (''Siang'', 0, 55), (''Sore'', 0, 60)] \<and>
   (\<exists>before. snd (cron_callback config w s r) = before @ snd (runCheckin config w (sched_name s)) \<and>
      filter is_sleep before =
        (if getRandomDelayInRange s r > 0 then [Sleep (getRandomDelayInRange s r)] else []) \<and>
      filter is_roster_access before = [] \<and> session_nips before = [])"
proof -
  let ?before = "[Logged LInfo (CronTriggered (sched_name s)),
      Logged LInfo (RandomDelay (js_round (getRandomDelayInRange s r / 60000))),
      Logged LInfo (ScheduledCheckinAt (getRandomDelayInRange s r))] @
     (if getRandomDelayInRange s r > 0 then [Sleep (getRandomDelayInRange s r)] else []) @
     [Logged LInfo (StartingAfterDelay (sched_name s) (js_round (getRandomDelayInRange s r / 60000)))]"
  have "snd (cron_callback config w s r) = ?before @ snd (runCheckin config w (sched_name s))"
    by (simp add: cron_callback_events)
  moreover have "filter is_sleep ?before =
        (if getRandomDelayInRange s r > 0 then [Sleep (getRandomDelayInRange s r)] else [])"
    by simp
  moreover have "filter is_roster_access ?before = []" "session_nips ?before = []"
    by simp_all
  ultimately have "\<exists>before. snd (cron_callback config w s r) =
        before @ snd (runCheckin config w (sched_name s)) \<and>
      filter is_sleep before =
        (if getRandomDelayInRange s r > 0 then [Sleep (getRandomDelayInRange s r)] else []) \<and>
      filter is_roster_access before = [] \<and> session_nips before = []"
    by blast
  with delay_in_range [of r s config] schedule_ranges [of config] show ?thesis
    by blast
qed

theorem cron_delay_before_run_witness:
  "real (startMinute (SCHEDULES config_defaults ! 1)) * 60000
     \<le> getRandomDelayInRange (SCHEDULES config_defaults ! 1) (1 / 2) \<and>
   getRandomDelayInRange (SCHEDULES config_defaults ! 1) (1 / 2)
     < real (endMinute (SCHEDULES config_defaults ! 1)) * 60000 \<and>
   getRandomDelayInRange (SCHEDULES config_defaults ! 1) (1 / 2) = 1650000"
proof -
  have "(0::real) \<le> 1 / 2 \<and> (1::real) / 2 < 1 \<and>
      SCHEDULES config_defaults ! 1 \<in> set (SCHEDULES config_defaults)"
    by (simp add: SCHEDULES_def)
  with cron_delay_before_run [where r = "1 / 2" and s = "SCHEDULES config_defaults ! 1"
      and config = config_defaults]
  have "real (startMinute (SCHEDULES config_defaults ! 1)) * 60000
     \<le> getRandomDelayInRange (SCHEDULES config_defaults ! 1) (1 / 2) \<and>
   getRandomDelayInRange (SCHEDULES config_defaults ! 1) (1 / 2)
     < real (endMinute (SCHEDULES config_defaults ! 1)) * 60000"
    by blast
  moreover have "getRandomDelayInRange (SCHEDULES config_defaults ! 1) (1 / 2) = 1650000"
    by (simp add: SCHEDULES_def getRandomDelayInRange_def)
  ultimately show ?thesis by blast
qed


text \<open>
  Claim C6 as the specification states it confines the guard to the cron path. The guard
  stands at the head of the scheduler's \<open>runCheckin\<close>, which the command line calls as
  well: on a Sunday, with an enabled user in the roster, the run started by
  \<^verbatim>\<open>--manual\<close> is skipped too.
\<close>

theorem cli_manual_guard_counterexample:
  "cli_run config_defaults
     \<lparr>run_clock = \<lparr>date_en_CA = ''2025-11-02'', week_day = 0, hours = 10, minutes = 0,
                    time_id_ID = ''10.00.00''\<rparr>,
        users_file = Stored [[''nip'' \<mapsto> JStr ''1'', ''password'' \<mapsto> JStr ''1'',
                              ''enabled'' \<mapsto> JBool True]],
        pegawai_api = Inr [],
        pre_delay_draw = (\<lambda>i. 0),
        inter_delay_draw = (\<lambda>i. 0),
        session_of = (\<lambda>u. \<lparr>goto_result = Map.empty, form_found = True,
                             interaction_error = None, page_content = ''Berhasil'',
                             page_title = ''SKEMA RAJA'',
                             page_url = ''https://skemaraja.kemenhub.go.id/'',
                             table_eval = Inl ''closed''\<rparr>),
        session_clock = (\<lambda>u. \<lparr>date_en_CA = ''2025-11-02'', week_day = 0, hours = 10,
                                minutes = 0, time_id_ID = ''10.00.00''\<rparr>),
        notify_time = (\<lambda>u. ''2/11/2025, 10.00.00''),
        gateway_of = (\<lambda>u. NetworkError ''offline'')\<rparr>
     FlagManual =
   (Inr None,
    [Logged LInfo ManualTriggered, Logged LInfo (StartingCheckin ''Manual''),
     Logged LInfo SkippingWeekend])"
  by (simp add: runCheckin_def isWeekend_def)

text \<open>
  Claim C6, amended. The guard is part of the scheduler's \<open>runCheckin\<close>. When the day is a
  weekend or a listed holiday, a run started by cron, and in the same way a run started from
  the command line, stops at once with a logged reason (weekend or holiday): the roster is
  not loaded and no browser session is started. The trigger of the dashboard calls another
  function, which has no guard: whatever the day, it replies with success and runs one
  session for every enabled user that has a nip and a password, and its behaviour depends on
  the clock only through the hour and the minute that name the schedule.
\<close>

theorem guard_on_scheduler_paths_only:
  "(\<not> isWorkingDay (run_clock w) \<longrightarrow>
      runCheckin config w name =
        (Inr None,
         [Logged LInfo (StartingCheckin name),
          Logged LInfo (if isWeekend (run_clock w) then SkippingWeekend else SkippingHoliday)]) \<and>
      snd (cron_callback config w s r) =
        [Logged LInfo (CronTriggered (sched_name s)),
         Logged LInfo (RandomDelay (js_round (getRandomDelayInRange s r / 60000))),
         Logged LInfo (ScheduledCheckinAt (getRandomDelayInRange s r))] @
        (if getRandomDelayInRange s r > 0 then [Sleep (getRandomDelayInRange s r)] else []) @
        [Logged LInfo (StartingAfterDelay (sched_name s) (js_round (getRandomDelayInRange s r / 60000))),
         Logged LInfo (StartingCheckin (sched_name s)),
         Logged LInfo (if isWeekend (run_clock w) then SkippingWeekend else SkippingHoliday)] \<and>
      filter is_roster_access (snd (cron_callback config w s r)) = [] \<and>
      session_nips (snd (cron_callback config w s r)) = [] \<and>
      (\<exists>name'. cli_run config w flag =
         (Inr None,
          (if flag = FlagManual then [Logged LInfo ManualTriggered] else []) @
          [Logged LInfo (StartingCheckin name'),
           Logged LInfo (if isWeekend (run_clock w) then SkippingWeekend else SkippingHoliday)]))) \<and>
   (isWorkingDay (run_clock w) \<longrightarrow>
      (\<exists>rest. snd (runCheckin config w name) =
         Logged LInfo (StartingCheckin name) # snd (getUsers config w) @ rest)) \<and>
   (filter (\<lambda>u. truthy (u ''enabled'') \<and> truthy (u ''nip'') \<and> truthy (u ''password''))
      (loadUsers roster_file) \<noteq> [] \<longrightarrow>
      reply_success (fst (post_trigger w config_file roster_file)) \<and>
      session_nips (snd (post_trigger w config_file roster_file)) =
        map (\<lambda>u. u ''nip'')
          (filter (\<lambda>u. truthy (u ''enabled'') \<and> truthy (u ''nip'') \<and> truthy (u ''password''))
             (loadUsers roster_file))) \<and>
   (hours c = hours c' \<and> minutes c = minutes c' \<longrightarrow>
      post_trigger (w\<lparr>run_clock := c\<rparr>) config_file roster_file =
      post_trigger (w\<lparr>run_clock := c'\<rparr>) config_file roster_file)"
proof -
  have quiet: "filter is_roster_access (snd (cron_callback config w s r)) = [] \<and>
      session_nips (snd (cron_callback config w s r)) = []"
    if "\<not> isWorkingDay (run_clock w)"
    by (simp add: cron_callback_skips [OF that])
  from quiet runCheckin_skips [of w config name] cron_callback_skips [of w config s r]
    cli_run_skips [of w config flag] runCheckin_loads [of w config name]
    post_trigger_runs [of roster_file w config_file]
    post_trigger_any_day [of c c' w config_file roster_file]
  show ?thesis by blast
qed

theorem guard_on_scheduler_paths_only_witness:
  "snd (cron_callback config_defaults
     \<lparr>run_clock = \<lparr>date_en_CA = ''2025-11-02'', week_day = 0, hours = 10, minutes = 0,
                    time_id_ID = ''10.00.00''\<rparr>,
        users_file = Stored [[''nip'' \<mapsto> JStr ''1'', ''password'' \<mapsto> JStr ''1'',
                              ''enabled'' \<mapsto> JBool True]],
        pegawai_api = Inr [],
        pre_delay_draw = (\<lambda>i. 0),
        inter_delay_draw = (\<lambda>i. 0),
        session_of = (\<lambda>u. \<lparr>goto_result = Map.empty, form_found = True,
                             interaction_error = None, page_content = ''Berhasil'',
                             page_title = ''SKEMA RAJA'',
                             page_url = ''https://skemaraja.kemenhub.go.id/'',
                             table_eval = Inl ''closed''\<rparr>),
        session_clock = (\<lambda>u. \<lparr>date_en_CA = ''2025-11-02'', week_day = 0, hours = 10,
                                minutes = 0, time_id_ID = ''10.00.00''\<rparr>),
        notify_time = (\<lambda>u. ''2/11/2025, 10.00.00''),
        gateway_of = (\<lambda>u. NetworkError ''offline'')\<rparr>
     (SCHEDULES config_defaults ! 0) 0) =
     [Logged LInfo (CronTriggered ''Pagi''), Logged LInfo (RandomDelay 0),
      Logged LInfo (ScheduledCheckinAt 0), Logged LInfo (StartingAfterDelay ''Pagi'' 0),
      Logged LInfo (StartingCheckin ''Pagi''), Logged LInfo SkippingWeekend] \<and>
   reply_success (fst (post_trigger
     \<lparr>run_clock = \<lparr>date_en_CA = ''2025-11-02'', week_day = 0, hours = 10, minutes = 0,
                    time_id_ID = ''10.00.00''\<rparr>,
        users_file = Stored [[''nip'' \<mapsto> JStr ''1'', ''password'' \<mapsto> JStr ''1'',
                              ''enabled'' \<mapsto> JBool True]],
        pegawai_api = Inr [],
        pre_delay_draw = (\<lambda>i. 0),
        inter_delay_draw = (\<lambda>i. 0),
        session_of = (\<lambda>u. \<lparr>goto_result = Map.empty, form_found = True,
                             interaction_error = None, page_content = ''Berhasil'',
                             page_title = ''SKEMA RAJA'',
                             page_url = ''https://skemaraja.kemenhub.go.id/'',
                             table_eval = Inl ''closed''\<rparr>),
        session_clock = (\<lambda>u. \<lparr>date_en_CA = ''2025-11-02'', week_day = 0, hours = 10,
                                minutes = 0, time_id_ID = ''10.00.00''\<rparr>),
        notify_time = (\<lambda>u. ''2/11/2025, 10.00.00''),
        gateway_of = (\<lambda>u. NetworkError ''offline'')\<rparr>
     Absent
     (Stored [[''nip'' \<mapsto> JStr ''1'', ''password'' \<mapsto> JStr ''1'', ''enabled'' \<mapsto> JBool True],
                [''nip'' \<mapsto> JStr ''2'', ''password'' \<mapsto> JStr ''2'', ''enabled'' \<mapsto> JBool False]]))) \<and>
   session_nips (snd (post_trigger
     \<lparr>run_clock = \<lparr>date_en_CA = ''2025-11-02'', week_day = 0, hours = 10, minutes = 0,
                    time_id_ID = ''10.00.00''\<rparr>,
        users_file = Stored [[''nip'' \<mapsto> JStr ''1'', ''password'' \<mapsto> JStr ''1'',
                              ''enabled'' \<mapsto> JBool True]],
        pegawai_api = Inr [],
        pre_delay_draw = (\<lambda>i. 0),
        inter_delay_draw = (\<lambda>i. 0),
        session_of = (\<lambda>u. \<lparr>goto_result = Map.empty, form_found = True,
                             interaction_error = None, page_content = ''Berhasil'',
                             page_title = ''SKEMA RAJA'',
                             page_url = ''https://skemaraja.kemenhub.go.id/'',
                             table_eval = Inl ''closed''\<rparr>),
        session_clock = (\<lambda>u. \<lparr>date_en_CA = ''2025-11-02'', week_day = 0, hours = 10,
                                minutes = 0, time_id_ID = ''10.00.00''\<rparr>),
        notify_time = (\<lambda>u. ''2/11/2025, 10.00.00''),
        gateway_of = (\<lambda>u. NetworkError ''offline'')\<rparr>
     Absent
     (Stored [[''nip'' \<mapsto> JStr ''1'', ''password'' \<mapsto> JStr ''1'', ''enabled'' \<mapsto> JBool True],
                [''nip'' \<mapsto> JStr ''2'', ''password'' \<mapsto> JStr ''2'', ''enabled'' \<mapsto> JBool False]]))) = [Some (JStr ''1'')]"
proof -
  let ?w = "\<lparr>run_clock = \<lparr>date_en_CA = ''2025-11-02'', week_day = 0, hours = 10, minutes = 0,
                    time_id_ID = ''10.00.00''\<rparr>,
        users_file = Stored [[''nip'' \<mapsto> JStr ''1'', ''password'' \<mapsto> JStr ''1'',
                              ''enabled'' \<mapsto> JBool True]],
        pegawai_api = Inr [],
        pre_delay_draw = (\<lambda>i. 0),
        inter_delay_draw = (\<lambda>i. 0),
        session_of = (\<lambda>u. \<lparr>goto_result = Map.empty, form_found = True,
                             interaction_error = None, page_content = ''Berhasil'',
                             page_title = ''SKEMA RAJA'',
                             page_url = ''https://skemaraja.kemenhub.go.id/'',
                             table_eval = Inl ''closed''\<rparr>),
        session_clock = (\<lambda>u. \<lparr>date_en_CA = ''2025-11-02'', week_day = 0, hours = 10,
                                minutes = 0, time_id_ID = ''10.00.00''\<rparr>),
        notify_time = (\<lambda>u. ''2/11/2025, 10.00.00''),
        gateway_of = (\<lambda>u. NetworkError ''offline'')\<rparr>"
  let ?rf = "(Stored [[''nip'' \<mapsto> JStr ''1'', ''password'' \<mapsto> JStr ''1'', ''enabled'' \<mapsto> JBool True],
                [''nip'' \<mapsto> JStr ''2'', ''password'' \<mapsto> JStr ''2'', ''enabled'' \<mapsto> JBool False]])"
  let ?s = "SCHEDULES config_defaults ! 0"
  have weekend: "\<not> isWorkingDay (run_clock ?w)"
    by (simp add: isWorkingDay_def isWeekend_def)
  have users: "filter (\<lambda>u. truthy (u ''enabled'') \<and> truthy (u ''nip'') \<and> truthy (u ''password''))
      (loadUsers ?rf) \<noteq> []"
    by (simp add: loadUsers_def)
  note inst = guard_on_scheduler_paths_only [where w = ?w and config = config_defaults
      and s = ?s and r = 0 and roster_file = ?rf and config_file = Absent]
  from inst weekend
  have "snd (cron_callback config_defaults ?w ?s 0) =
        [Logged LInfo (CronTriggered (sched_name ?s)),
         Logged LInfo (RandomDelay (js_round (getRandomDelayInRange ?s 0 / 60000))),
         Logged LInfo (ScheduledCheckinAt (getRandomDelayInRange ?s 0))] @
        (if getRandomDelayInRange ?s 0 > 0 then [Sleep (getRandomDelayInRange ?s 0)] else []) @
        [Logged LInfo (StartingAfterDelay (sched_name ?s) (js_round (getRandomDelayInRange ?s 0 / 60000))),
         Logged LInfo (StartingCheckin (sched_name ?s)),
         Logged LInfo (if isWeekend (run_clock ?w) then SkippingWeekend else SkippingHoliday)]"
    by blast
  moreover have "getRandomDelayInRange ?s 0 = 0" "sched_name ?s = ''Pagi''"
      "isWeekend (run_clock ?w)" "js_round 0 = 0"
    by (simp_all add: getRandomDelayInRange_def SCHEDULES_def isWeekend_def js_round_def)
  ultimately have cron: "snd (cron_callback config_defaults ?w ?s 0) =
     [Logged LInfo (CronTriggered ''Pagi''), Logged LInfo (RandomDelay 0),
      Logged LInfo (ScheduledCheckinAt 0), Logged LInfo (StartingAfterDelay ''Pagi'' 0),
      Logged LInfo (StartingCheckin ''Pagi''), Logged LInfo SkippingWeekend]"
    by simp
  from inst users
  have "reply_success (fst (post_trigger ?w Absent ?rf)) \<and>
      session_nips (snd (post_trigger ?w Absent ?rf)) =
        map (\<lambda>u. u ''nip'')
          (filter (\<lambda>u. truthy (u ''enabled'') \<and> truthy (u ''nip'') \<and> truthy (u ''password''))
             (loadUsers ?rf))"
    by blast
  moreover have "map (\<lambda>u. u ''nip'')
          (filter (\<lambda>u. truthy (u ''enabled'') \<and> truthy (u ''nip'') \<and> truthy (u ''password''))
             (loadUsers ?rf)) = [Some (JStr ''1'')]"
    by (simp add: loadUsers_def)
  ultimately show ?thesis using cron by simp
qed

end
